theory Spec2Isabelle
  imports Main "HOL-Library.Word"
begin

unbundle bit_operations_syntax

section \<open>Data model of kern/trap.c and kern/syscall.c\<close>

text \<open>
  The file src/kern/trap.c holds two translation units: the trap dispatcher with
  \<open>page_fault_handler\<close>, and the system-call surface (\<open>sys_exofork\<close>,
  \<open>sys_page_alloc\<close>, \<open>sys_page_map\<close>, \<open>sys_page_unmap\<close>,
  \<open>sys_env_set_trapframe\<close>, \<open>sys_ipc_try_send\<close>, ...). Both are embedded
  here as state-passing functions over a kernel state. Registers, addresses and
  permission words are 32-bit machine words, segment selectors 16-bit words.
\<close>

type_synonym u32 = "32 word"
type_synonym u16 = "16 word"
type_synonym envid_t = "32 word"
type_synonym ppn = nat

text \<open>
  The error codes the system calls return negated (\<open>-E_INVAL\<close> is \<open>Inl E_INVAL\<close>);
  a non-negative return value \<open>v\<close> is \<open>Inr v\<close>.
\<close>

datatype error = E_BAD_ENV | E_INVAL | E_NO_MEM | E_NO_FREE_ENV | E_FAULT | E_IPC_NOT_RECV | E_NO_SYS

datatype env_status = ENV_FREE | ENV_DYING | ENV_RUNNABLE | ENV_RUNNING | ENV_NOT_RUNNABLE

record PushRegs =
  reg_edi :: u32
  reg_esi :: u32
  reg_ebp :: u32
  reg_oesp :: u32
  reg_ebx :: u32
  reg_edx :: u32
  reg_ecx :: u32
  reg_eax :: u32

record Trapframe =
  tf_regs :: PushRegs
  tf_es :: u16
  tf_ds :: u16
  tf_trapno :: u32
  tf_err :: u32
  tf_eip :: u32
  tf_cs :: u16
  tf_eflags :: u32
  tf_esp :: u32
  tf_ss :: u16

record UTrapframe =
  utf_fault_va :: u32
  utf_err :: u32
  utf_regs :: PushRegs
  utf_eip :: u32
  utf_eflags :: u32
  utf_esp :: u32

text \<open>
  An address space, seen the way the source's \<open>uvpd[PDX(va)]\<close> and
  \<open>uvpt[PGNUM(va)]\<close> see it: for each page-directory index the frame of its page
  table (if one is allocated), and for each virtual page number the page-table entry
  word (frame address, then the twelve flag bits).
\<close>

record AddrSpace =
  uvpd :: "u32 \<Rightarrow> ppn option"
  uvpt :: "u32 \<Rightarrow> u32"

record Env =
  env_tf :: Trapframe
  env_id :: envid_t
  env_parent_id :: envid_t
  env_status :: env_status
  env_pgdir :: AddrSpace
  env_pgfault_upcall :: u32
  env_ipc_recving :: bool
  env_ipc_dstva :: u32
  env_ipc_value :: u32
  env_ipc_from :: envid_t
  env_ipc_perm :: u32

text \<open>
  The kernel state: the \<open>envs\<close> array, \<open>curenv\<close> as an index into it (a
  \<open>struct Env *\<close> is an index), and the physical page allocator's data:
  reference counts (\<open>uint16_t pp_ref\<close>), free list and frame contents.
\<close>

record kstate =
  envs :: "Env list"
  curenv :: nat
  pp_ref :: "ppn \<Rightarrow> 16 word"
  page_free_list :: "ppn list"
  page_bytes :: "ppn \<Rightarrow> nat \<Rightarrow> 8 word"

text \<open>
  The constants of inc/memlayout.h, inc/mmu.h, inc/env.h and inc/trap.h that the
  operating system chooses are not among the sources; they are parameters of every
  function that uses them. \<open>mkenvid\<close> stands for the generation of a fresh
  environment identifier, which the specification leaves opaque.
\<close>

record kconf =
  UTOP :: u32
  UXSTACKTOP :: u32
  PTE_SYSCALL :: u32
  GD_UD :: u16
  GD_UT :: u16
  sizeof_UTrapframe :: u32
  mkenvid :: "nat \<Rightarrow> envid_t \<Rightarrow> envid_t"

text \<open>
  The constants and macros of inc/mmu.h that the x86 architecture fixes are not among
  the sources either. The specification targets "a 32-bit protected-mode x86 machine"
  with an "MMU granularity of 4 KiB" and says that "the low bits of a mapping's
  permission word are the hardware page-table bits"; each definition below is modelled
  from those words and has the value the architecture defines.
\<close>

text \<open>Modelled from the spec: \<open>PGSIZE\<close> of inc/mmu.h, the "MMU granularity of 4 KiB".\<close>

definition PGSIZE :: u32 where
  "PGSIZE = 4096"

text \<open>Modelled from the spec: \<open>PTE_P\<close> of inc/mmu.h, the hardware "present" bit.\<close>

definition PTE_P :: u32 where
  "PTE_P = 1"

text \<open>Modelled from the spec: \<open>PTE_W\<close> of inc/mmu.h, the hardware "writable" bit.\<close>

definition PTE_W :: u32 where
  "PTE_W = 2"

text \<open>Modelled from the spec: \<open>PTE_U\<close> of inc/mmu.h, the hardware "user" bit.\<close>

definition PTE_U :: u32 where
  "PTE_U = 4"

text \<open>
  Modelled from the spec: \<open>FL_IF\<close> of inc/mmu.h, the "interrupt-enable flag" of the
  flags word (bit 9 of EFLAGS).
\<close>

definition FL_IF :: u32 where
  "FL_IF = 0x200"

text \<open>
  Modelled from the spec: \<open>FL_IOPL_MASK\<close> of inc/mmu.h, the "I/O privilege level"
  field of the flags word (bits 12 and 13 of EFLAGS).
\<close>

definition FL_IOPL_MASK :: u32 where
  "FL_IOPL_MASK = 0x3000"

text \<open>
  Modelled from the spec: the macro \<open>PGOFF\<close> of inc/mmu.h, the offset of an address
  in its 4 KiB page; an address is "page-aligned" when it is zero.
\<close>

definition PGOFF :: "u32 \<Rightarrow> u32" where
  "PGOFF la = la AND 0xFFF"

text \<open>
  Modelled from the spec: the macro \<open>PGNUM\<close> of inc/mmu.h, the number of the 4 KiB
  page of an address (the index the source uses in \<open>uvpt[PGNUM(va)]\<close>).
\<close>

definition PGNUM :: "u32 \<Rightarrow> u32" where
  "PGNUM la = drop_bit 12 la"

text \<open>
  Modelled from the spec: the macro \<open>PDX\<close> of inc/mmu.h, the page-directory index of
  an address (the index the source uses in \<open>uvpd[PDX(va)]\<close>); a page table of the
  architecture covers 1024 pages.
\<close>

definition PDX :: "u32 \<Rightarrow> u32" where
  "PDX la = drop_bit 22 la"

text \<open>
  Modelled from the spec: the macro \<open>PTE_ADDR\<close> of inc/mmu.h, the frame address in
  a page-table entry (the entry without its twelve low bits).
\<close>

definition PTE_ADDR :: "u32 \<Rightarrow> u32" where
  "PTE_ADDR pte = pte AND NOT 0xFFF"

text \<open>
  Modelled from the spec: \<open>page2pa\<close> of kern/pmap.h, the physical address of a
  frame, frames being numbered in 4 KiB units.
\<close>

definition page2pa :: "ppn \<Rightarrow> u32" where
  "page2pa pp = push_bit 12 (word_of_nat pp)"

text \<open>
  Modelled from the spec: \<open>pa2page\<close> of kern/pmap.h, the frame of a physical
  address.
\<close>

definition pa2page :: "u32 \<Rightarrow> ppn" where
  "pa2page pa = unat (PGNUM pa)"

section \<open>The collaborators of kern/pmap.c and kern/env.c\<close>

text \<open>
  The functions of kern/pmap.c and kern/env.c that the system calls use are not among
  the sources. Each is modelled from the specification's description of the
  collaborator it belongs to, over the state above. An assignment through a
  \<open>struct Env *\<close> is \<open>upd_env\<close>, an assignment to the page-table entry of \<open>va\<close>
  in the address space of environment \<open>e\<close> is \<open>set_pte\<close>.
\<close>

definition upd_env :: "nat \<Rightarrow> (Env \<Rightarrow> Env) \<Rightarrow> kstate \<Rightarrow> kstate" where
  "upd_env e f s = s\<lparr>envs := (envs s)[e := f (envs s ! e)]\<rparr>"

definition set_pte :: "nat \<Rightarrow> u32 \<Rightarrow> u32 \<Rightarrow> kstate \<Rightarrow> kstate" where
  "set_pte e va pte s =
     upd_env e (\<lambda>env. env\<lparr>env_pgdir := (env_pgdir env)\<lparr>uvpt := (uvpt (env_pgdir env))(PGNUM va := pte)\<rparr>\<rparr>) s"

text \<open>
  Modelled from the spec: \<open>page_alloc\<close> of kern/pmap.c, which is not among the
  sources. The specification's PageAllocator is a "reference-counted
  physical page allocator with zeroing option", and every frame is owned either by
  its free list or by mappings. The argument says whether \<open>ALLOC_ZERO\<close> is passed;
  \<open>None\<close> is the \<open>NULL\<close> of an exhausted allocator.
\<close>

definition page_alloc :: "bool \<Rightarrow> kstate \<Rightarrow> (ppn \<times> kstate) option" where
  "page_alloc zero s =
     (case page_free_list s of
        [] \<Rightarrow> None
      | pp # rest \<Rightarrow>
          Some (pp, s\<lparr>page_free_list := rest,
                       page_bytes := (if zero then (page_bytes s)(pp := (\<lambda>_. 0)) else page_bytes s)\<rparr>))"

text \<open>
  Modelled from the spec: \<open>page_free\<close> of kern/pmap.c; the frame goes back to the
  allocator's free list.
\<close>

definition page_free :: "ppn \<Rightarrow> kstate \<Rightarrow> kstate" where
  "page_free pp s = s\<lparr>page_free_list := pp # page_free_list s\<rparr>"

text \<open>
  Modelled from the spec: \<open>page_decref\<close> of kern/pmap.c. "Physical pages are
  reference-counted; ... a page_unmap or address-space teardown decrements; the frame
  is returned to the allocator at zero."
\<close>

definition page_decref :: "ppn \<Rightarrow> kstate \<Rightarrow> kstate" where
  "page_decref pp s =
     (let s1 = s\<lparr>pp_ref := (pp_ref s)(pp := pp_ref s pp - 1)\<rparr>
      in if pp_ref s1 pp = 0 then page_free pp s1 else s1)"

text \<open>
  Modelled from the spec: the AddressSpace operation "lookup-with-pte"
  (\<open>page_lookup\<close> of kern/pmap.c). It yields the frame mapped at \<open>va\<close> together
  with the page-table entry that \<open>*pte_store\<close> points to, or \<open>None\<close> (the
  \<open>NULL\<close>) when no page table covers \<open>va\<close> or the entry is not present.
\<close>

definition page_lookup :: "AddrSpace \<Rightarrow> u32 \<Rightarrow> (ppn \<times> u32) option" where
  "page_lookup pgdir va =
     (if uvpd pgdir (PDX va) = None then None
      else let pte = uvpt pgdir (PGNUM va)
           in if pte AND PTE_P = 0 then None else Some (pa2page (PTE_ADDR pte), pte))"

text \<open>
  Modelled from the spec: the AddressSpace operation "remove" (\<open>page_remove\<close> of
  kern/pmap.c), on the address space of environment \<open>e\<close>. The mapped frame's
  reference count is decremented and the entry cleared; "unmapping an unmapped
  address silently succeeds".
\<close>

definition page_remove :: "nat \<Rightarrow> u32 \<Rightarrow> kstate \<Rightarrow> kstate" where
  "page_remove e va s =
     (case page_lookup (env_pgdir (envs s ! e)) va of
        None \<Rightarrow> s
      | Some (pp, pte) \<Rightarrow> set_pte e va 0 (page_decref pp s))"

text \<open>
  Modelled from the spec: the AddressSpace operation "walk" (\<open>pgdir_walk\<close> of
  kern/pmap.c) with \<open>create = 1\<close>: when no page table covers \<open>va\<close>, a zeroed frame
  is allocated for one and referenced by the directory; \<open>None\<close> when that
  allocation fails ("no memory ... to allocate any necessary page tables").
\<close>

definition pgdir_walk_create :: "nat \<Rightarrow> u32 \<Rightarrow> kstate \<Rightarrow> kstate option" where
  "pgdir_walk_create e va s =
     (if uvpd (env_pgdir (envs s ! e)) (PDX va) \<noteq> None then Some s
      else case page_alloc True s of
             None \<Rightarrow> None
           | Some (pt, s1) \<Rightarrow>
               Some (upd_env e
                       (\<lambda>env. env\<lparr>env_pgdir :=
                          \<lparr>uvpd = (uvpd (env_pgdir env))(PDX va := Some pt),
                           uvpt = (\<lambda>n. if drop_bit 10 n = PDX va then 0 else uvpt (env_pgdir env) n)\<rparr>\<rparr>)
                       (s1\<lparr>pp_ref := (pp_ref s1)(pt := pp_ref s1 pt + 1)\<rparr>)))"

text \<open>
  Modelled from the spec: the AddressSpace operation "insert" (\<open>page_insert\<close> of
  kern/pmap.c), on the address space of environment \<open>e\<close>. It fails with
  \<open>E_NO_MEM\<close> when a necessary page table cannot be allocated. Otherwise the
  frame's reference count is incremented ("a page_map increments"), a page already
  mapped at \<open>va\<close> is unmapped (the source's comment on \<open>sys_page_alloc\<close>: "If a page
  is already mapped at 'va', that page is unmapped as a side effect"), and the entry
  becomes the frame's address with \<open>perm\<close> and the present bit.
\<close>

definition page_insert :: "nat \<Rightarrow> ppn \<Rightarrow> u32 \<Rightarrow> u32 \<Rightarrow> kstate \<Rightarrow> (error + unit) \<times> kstate" where
  "page_insert e pp va perm s =
     (case pgdir_walk_create e va s of
        None \<Rightarrow> (Inl E_NO_MEM, s)
      | Some s1 \<Rightarrow>
          let s2 = s1\<lparr>pp_ref := (pp_ref s1)(pp := pp_ref s1 pp + 1)\<rparr>;
              s3 = page_remove e va s2
          in (Inr (), set_pte e va (page2pa pp OR perm OR PTE_P) s3))"

text \<open>
  Modelled from the spec: \<open>user_mem_check\<close> of kern/pmap.c. "Validates that the
  source frame is readable with user permission in the target's address space";
  "Validate that the chosen landing range is writable by the user in the
  environment's address space with user/write/present bits". Every page that the
  range \<open>[va, va + len)\<close> touches must be mapped with the bits of \<open>perm\<close> and the
  present bit; a range that wraps around the address space is refused.
\<close>

definition user_mem_check :: "Env \<Rightarrow> u32 \<Rightarrow> u32 \<Rightarrow> u32 \<Rightarrow> bool" where
  "user_mem_check env va len perm =
     (len = 0 \<or>
      (va \<le> va + (len - 1) \<and>
       list_all
         (\<lambda>n. case page_lookup (env_pgdir env) (push_bit 12 (word_of_nat n)) of
                None \<Rightarrow> False
              | Some (pp, pte) \<Rightarrow> pte AND (perm OR PTE_P) = perm OR PTE_P)
         [unat (PGNUM va) ..< Suc (unat (PGNUM (va + (len - 1))))]))"

text \<open>
  Modelled from the spec: the table search of \<open>envid2env\<close> (kern/env.c), the
  EnvStore's "lookup by id with caller-permission check". An identifier resolves to the environment of the
  table that carries it and is not free; "permission to act on environment X means X
  is the caller or X's parent identifier equals the caller's identifier"; anything
  else is \<open>E_BAD_ENV\<close>. The identifier 0 denotes the caller, as the callers under
  src/ use it (\<open>sys_page_alloc(0, addr, ...)\<close>, \<open>sys_page_unmap(0, ...)\<close>).
\<close>

fun lookup_env :: "Env list \<Rightarrow> envid_t \<Rightarrow> nat option" where
  "lookup_env [] envid = None"
| "lookup_env (e # es) envid =
     (if env_id e = envid \<and> env_status e \<noteq> ENV_FREE then Some 0
      else map_option Suc (lookup_env es envid))"

text \<open>
  Modelled from the spec: \<open>envid2env\<close> of kern/env.c, over the table search
  \<open>lookup_env\<close> above; \<open>checkperm\<close> is its third argument.
\<close>

definition envid2env :: "kstate \<Rightarrow> envid_t \<Rightarrow> bool \<Rightarrow> error + nat" where
  "envid2env s envid checkperm =
     (if envid = 0 then Inr (curenv s)
      else case lookup_env (envs s) envid of
             None \<Rightarrow> Inl E_BAD_ENV
           | Some e \<Rightarrow>
               if checkperm \<and> e \<noteq> curenv s \<and>
                  env_parent_id (envs s ! e) \<noteq> env_id (envs s ! curenv s)
               then Inl E_BAD_ENV else Inr e)"

text \<open>
  Modelled from the spec: the slot search of \<open>env_alloc\<close> (kern/env.c), the
  EnvStore's "allocation". \<open>env_alloc\<close> takes the first free slot of the table (\<open>E_NO_FREE_ENV\<close> when there is none),
  allocates the frame of the new page directory (\<open>E_NO_MEM\<close> on memory exhaustion),
  and initialises the slot: a fresh identifier, the given parent, an empty address
  space, no page-fault upcall, not receiving. The status it leaves is overwritten by
  the only caller, \<open>sys_exofork\<close>.
\<close>

fun first_free :: "Env list \<Rightarrow> nat option" where
  "first_free [] = None"
| "first_free (e # es) =
     (if env_status e = ENV_FREE then Some 0 else map_option Suc (first_free es))"

text \<open>
  Modelled from the spec: \<open>env_alloc\<close> of kern/env.c, over the search
  \<open>first_free\<close> above. The saved trap frame of the slot is left as it is: the only
  caller under src/ overwrites it whole.
\<close>

definition env_alloc :: "kconf \<Rightarrow> envid_t \<Rightarrow> kstate \<Rightarrow> (error + nat) \<times> kstate" where
  "env_alloc K parent_id s =
     (case first_free (envs s) of
        None \<Rightarrow> (Inl E_NO_FREE_ENV, s)
      | Some e \<Rightarrow>
          (case page_alloc True s of
             None \<Rightarrow> (Inl E_NO_MEM, s)
           | Some (pd, s1) \<Rightarrow>
               (Inr e,
                upd_env e
                  (\<lambda>env. env\<lparr>env_id := mkenvid K e (env_id env),
                             env_parent_id := parent_id,
                             env_status := ENV_RUNNABLE,
                             env_pgdir := \<lparr>uvpd = (\<lambda>_. None), uvpt = (\<lambda>_. 0)\<rparr>,
                             env_pgfault_upcall := 0,
                             env_ipc_recving := False\<rparr>)
                  (s1\<lparr>pp_ref := (pp_ref s1)(pd := pp_ref s1 pd + 1)\<rparr>))))"

section \<open>The system calls\<close>

text \<open>
  Every system call takes the kernel state and returns its result with the state it
  leaves. \<open>e->field = v\<close> on a \<open>struct Env *e\<close> is \<open>upd_env e\<close>.
\<close>

definition sys_exofork :: "kconf \<Rightarrow> kstate \<Rightarrow> (error + envid_t) \<times> kstate" where
  "sys_exofork K s =
     (case env_alloc K (env_id (envs s ! curenv s)) s of
        (Inl r, s1) \<Rightarrow> (Inl r, s1)
      | (Inr e, s1) \<Rightarrow>
          let s2 = upd_env e (\<lambda>env. env\<lparr>env_status := ENV_NOT_RUNNABLE\<rparr>) s1;
              s3 = upd_env e (\<lambda>env. env\<lparr>env_tf := env_tf (envs s2 ! curenv s2)\<rparr>) s2;
              s4 = upd_env e
                     (\<lambda>env. env\<lparr>env_tf := (env_tf env)\<lparr>tf_regs := (tf_regs (env_tf env))\<lparr>reg_eax := 0\<rparr>\<rparr>\<rparr>) s3
          in (Inr (env_id (envs s4 ! e)), s4))"

text \<open>
  \<open>sys_env_set_trapframe\<close> receives a user pointer and reads a \<open>struct Trapframe\<close>
  through it: \<open>memmove(&e->env_tf, tf, sizeof(struct Trapframe))\<close>. The kernel runs on
  the page directory of the current environment, so the bytes are those of the
  caller's address space, read with supervisor privilege (a present mapping is
  enough). A byte that is not mapped there is a page fault in kernel mode, for which
  \<open>page_fault_handler\<close> panics: the system call then does not return.
\<close>

text \<open>
  Modelled from the spec: the memory read of a kernel-mode load, one byte at the
  virtual address \<open>a\<close> through the address space \<open>pgdir\<close>: the byte of the mapped
  frame at the offset of \<open>a\<close> in its page, or \<open>None\<close> (the page fault) when no page
  is present at \<open>a\<close>.
\<close>

definition kread8 :: "kstate \<Rightarrow> AddrSpace \<Rightarrow> u32 \<Rightarrow> 8 word option" where
  "kread8 s pgdir a =
     (case page_lookup pgdir a of
        None \<Rightarrow> None
      | Some (pp, pte) \<Rightarrow> Some (page_bytes s pp (unat (PGOFF a))))"

text \<open>
  The \<open>n\<close> bytes from \<open>va\<close> on, as \<open>memmove\<close> reads them; \<open>None\<close> when one of
  them faults.
\<close>

definition kread_bytes :: "kstate \<Rightarrow> AddrSpace \<Rightarrow> u32 \<Rightarrow> nat \<Rightarrow> 8 word list option" where
  "kread_bytes s pgdir va n = those (map (\<lambda>i. kread8 s pgdir (va + word_of_nat i)) [0..<n])"

text \<open>Little-endian 16-bit and 32-bit values at an offset of a byte sequence.\<close>

definition le16 :: "8 word list \<Rightarrow> nat \<Rightarrow> u16" where
  "le16 bs i = ucast (bs ! i) OR push_bit 8 (ucast (bs ! (i + 1)))"

definition le32 :: "8 word list \<Rightarrow> nat \<Rightarrow> u32" where
  "le32 bs i = ucast (bs ! i) OR push_bit 8 (ucast (bs ! (i + 1))) OR
               push_bit 16 (ucast (bs ! (i + 2))) OR push_bit 24 (ucast (bs ! (i + 3)))"

text \<open>
  Modelled from the spec: the layout of \<open>struct Trapframe\<close> (inc/trap.h, not among
  the sources), which "must be bit-identical to what the entry stubs push". The stubs
  of src/kern/trapentry.S push, after the hardware's \<open>ss\<close>, \<open>esp\<close>, \<open>eflags\<close>,
  \<open>cs\<close>, \<open>eip\<close> and the error code, the trap number, \<open>ds\<close>, \<open>es\<close> and the
  eight registers of \<open>pushal\<close>; from the lowest address up that is \<open>edi\<close>,
  \<open>esi\<close>, \<open>ebp\<close>, \<open>oesp\<close>, \<open>ebx\<close>, \<open>edx\<close>, \<open>ecx\<close>, \<open>eax\<close>, \<open>es\<close>,
  \<open>ds\<close>, trap number, error code, \<open>eip\<close>, \<open>cs\<close>, \<open>eflags\<close>, \<open>esp\<close>,
  \<open>ss\<close>: seventeen 32-bit slots, the selectors in the low half of theirs.
\<close>

definition sizeof_Trapframe :: u32 where
  "sizeof_Trapframe = 68"

definition Trapframe_of_bytes :: "8 word list \<Rightarrow> Trapframe" where
  "Trapframe_of_bytes bs =
     \<lparr>tf_regs = \<lparr>reg_edi = le32 bs 0, reg_esi = le32 bs 4, reg_ebp = le32 bs 8,
                 reg_oesp = le32 bs 12, reg_ebx = le32 bs 16, reg_edx = le32 bs 20,
                 reg_ecx = le32 bs 24, reg_eax = le32 bs 28\<rparr>,
      tf_es = le16 bs 32, tf_ds = le16 bs 36, tf_trapno = le32 bs 40, tf_err = le32 bs 44,
      tf_eip = le32 bs 48, tf_cs = le16 bs 52, tf_eflags = le32 bs 56, tf_esp = le32 bs 60,
      tf_ss = le16 bs 64\<rparr>"

text \<open>
  The \<open>struct Trapframe\<close> that a kernel-mode read of \<open>sizeof(struct Trapframe)\<close>
  bytes at \<open>va\<close> delivers, or \<open>None\<close> when the read faults.
\<close>

definition read_Trapframe :: "kstate \<Rightarrow> AddrSpace \<Rightarrow> u32 \<Rightarrow> Trapframe option" where
  "read_Trapframe s pgdir va =
     map_option Trapframe_of_bytes (kread_bytes s pgdir va (unat sizeof_Trapframe))"

text \<open>
  The exits of a system call that dereferences a user pointer: it returns a result
  and leaves a state, or the kernel panics. The negative code that a failed
  \<open>user_mem_check\<close> returns, and \<open>sys_env_set_trapframe\<close> passes on, is written
  \<open>E_FAULT\<close>.
\<close>

datatype sys_exit =
    Sys_Return "error + u32" kstate
  | Sys_Panic

definition sys_env_set_trapframe :: "kconf \<Rightarrow> envid_t \<Rightarrow> u32 \<Rightarrow> kstate \<Rightarrow> sys_exit" where
  "sys_env_set_trapframe K envid tfva s =
     (case envid2env s envid True of
        Inl r \<Rightarrow> Sys_Return (Inl r) s
      | Inr e \<Rightarrow>
          if \<not> user_mem_check (envs s ! e) tfva sizeof_Trapframe PTE_U
          then Sys_Return (Inl E_FAULT) s
          else
            (case read_Trapframe s (env_pgdir (envs s ! curenv s)) tfva of
               None \<Rightarrow> Sys_Panic
             | Some tf \<Rightarrow>
                 let s1 = upd_env e (\<lambda>env. env\<lparr>env_tf := tf\<rparr>) s;
                     s2 = upd_env e (\<lambda>env. env\<lparr>env_tf := (env_tf env)\<lparr>tf_ds := GD_UD K OR 3\<rparr>\<rparr>) s1;
                     s3 = upd_env e (\<lambda>env. env\<lparr>env_tf := (env_tf env)\<lparr>tf_es := GD_UD K OR 3\<rparr>\<rparr>) s2;
                     s4 = upd_env e (\<lambda>env. env\<lparr>env_tf := (env_tf env)\<lparr>tf_ss := GD_UD K OR 3\<rparr>\<rparr>) s3;
                     s5 = upd_env e (\<lambda>env. env\<lparr>env_tf := (env_tf env)\<lparr>tf_cs := GD_UT K OR 3\<rparr>\<rparr>) s4;
                     s6 = upd_env e
                            (\<lambda>env. env\<lparr>env_tf :=
                               (env_tf env)\<lparr>tf_eflags := tf_eflags (env_tf env) OR FL_IF\<rparr>\<rparr>) s5;
                     s7 = upd_env e
                            (\<lambda>env. env\<lparr>env_tf :=
                               (env_tf env)\<lparr>tf_eflags := tf_eflags (env_tf env) AND NOT FL_IOPL_MASK\<rparr>\<rparr>) s6
                 in Sys_Return (Inr 0) s7))"

definition sys_page_alloc :: "kconf \<Rightarrow> envid_t \<Rightarrow> u32 \<Rightarrow> u32 \<Rightarrow> kstate \<Rightarrow> (error + u32) \<times> kstate" where
  "sys_page_alloc K envid va perm s =
     (case envid2env s envid True of
        Inl r \<Rightarrow> (Inl r, s)
      | Inr e \<Rightarrow>
          if va \<ge> UTOP K \<or> PGOFF va \<noteq> 0 then (Inl E_INVAL, s)
          else if perm AND (PTE_U OR PTE_P) \<noteq> (PTE_U OR PTE_P) \<or> perm AND NOT (PTE_SYSCALL K) \<noteq> 0
          then (Inl E_INVAL, s)
          else
            (case page_alloc True s of
               None \<Rightarrow> (Inl E_NO_MEM, s)
             | Some (pp, s1) \<Rightarrow>
                 (case page_insert e pp va perm s1 of
                    (Inl r, s2) \<Rightarrow> (Inl r, page_free pp s2)
                  | (Inr u, s2) \<Rightarrow> (Inr 0, s2))))"

definition sys_page_map ::
  "kconf \<Rightarrow> envid_t \<Rightarrow> u32 \<Rightarrow> envid_t \<Rightarrow> u32 \<Rightarrow> u32 \<Rightarrow> kstate \<Rightarrow> (error + u32) \<times> kstate" where
  "sys_page_map K srcenvid srcva dstenvid dstva perm s =
     (case envid2env s srcenvid True of
        Inl r \<Rightarrow> (Inl r, s)
      | Inr srcenv \<Rightarrow>
          (case envid2env s dstenvid True of
             Inl r \<Rightarrow> (Inl r, s)
           | Inr dstenv \<Rightarrow>
               if srcva \<ge> UTOP K \<or> PGOFF srcva \<noteq> 0 then (Inl E_INVAL, s)
               else if dstva \<ge> UTOP K \<or> PGOFF dstva \<noteq> 0 then (Inl E_INVAL, s)
               else if perm AND (PTE_U OR PTE_P) \<noteq> (PTE_U OR PTE_P) \<or>
                       perm AND NOT (PTE_SYSCALL K) \<noteq> 0
               then (Inl E_INVAL, s)
               else
                 (case page_lookup (env_pgdir (envs s ! srcenv)) srcva of
                    None \<Rightarrow> (Inl E_INVAL, s)
                  | Some (pp, pte) \<Rightarrow>
                      if perm AND PTE_W \<noteq> 0 \<and> \<not> (pte AND PTE_W \<noteq> 0) then (Inl E_INVAL, s)
                      else
                        (case page_insert dstenv pp dstva perm s of
                           (Inl r, s1) \<Rightarrow> (Inl r, s1)
                         | (Inr u, s1) \<Rightarrow> (Inr 0, s1)))))"

definition sys_page_unmap :: "kconf \<Rightarrow> envid_t \<Rightarrow> u32 \<Rightarrow> kstate \<Rightarrow> (error + u32) \<times> kstate" where
  "sys_page_unmap K envid va s =
     (case envid2env s envid True of
        Inl r \<Rightarrow> (Inl r, s)
      | Inr e \<Rightarrow>
          if va \<ge> UTOP K \<or> PGOFF va \<noteq> 0 then (Inl E_INVAL, s)
          else (Inr 0, page_remove e va s))"

text \<open>
  The tail of \<open>sys_ipc_try_send\<close> after the label \<open>_update_ipc_fields\<close>, reached
  with the value \<open>perm\<close> has at the jump.
\<close>

definition update_ipc_fields :: "nat \<Rightarrow> u32 \<Rightarrow> u32 \<Rightarrow> kstate \<Rightarrow> kstate" where
  "update_ipc_fields e val perm s =
     (let s1 = upd_env e (\<lambda>env. env\<lparr>env_ipc_recving := False\<rparr>) s;
          s2 = upd_env e (\<lambda>env. env\<lparr>env_ipc_from := env_id (envs s1 ! curenv s1)\<rparr>) s1;
          s3 = upd_env e (\<lambda>env. env\<lparr>env_ipc_value := val\<rparr>) s2;
          s4 = upd_env e (\<lambda>env. env\<lparr>env_ipc_perm := perm\<rparr>) s3;
          s5 = upd_env e (\<lambda>env. env\<lparr>env_status := ENV_RUNNABLE\<rparr>) s4
      in upd_env e
           (\<lambda>env. env\<lparr>env_tf := (env_tf env)\<lparr>tf_regs := (tf_regs (env_tf env))\<lparr>reg_eax := 0\<rparr>\<rparr>\<rparr>) s5)"

definition sys_ipc_try_send ::
  "kconf \<Rightarrow> envid_t \<Rightarrow> u32 \<Rightarrow> u32 \<Rightarrow> u32 \<Rightarrow> kstate \<Rightarrow> (error + u32) \<times> kstate" where
  "sys_ipc_try_send K envid val srcva perm s =
     (case envid2env s envid False of
        Inl r \<Rightarrow> (Inl r, s)
      | Inr e \<Rightarrow>
          if \<not> env_ipc_recving (envs s ! e) then (Inl E_IPC_NOT_RECV, s)
          else if \<not> (env_ipc_dstva (envs s ! e) < UTOP K)
          then (Inr 0, update_ipc_fields e val 0 s)
          else if srcva < UTOP K then
            (if PGOFF srcva \<noteq> 0 then (Inl E_INVAL, s)
             else if perm AND (PTE_U OR PTE_P) \<noteq> (PTE_U OR PTE_P) \<or>
                     perm AND NOT (PTE_SYSCALL K) \<noteq> 0
             then (Inl E_INVAL, s)
             else
               (case page_lookup (env_pgdir (envs s ! curenv s)) srcva of
                  None \<Rightarrow> (Inl E_INVAL, s)
                | Some (pp, pte) \<Rightarrow>
                    if perm AND PTE_W \<noteq> 0 \<and> \<not> (pte OR PTE_W \<noteq> 0) then (Inl E_INVAL, s)
                    else
                      (case page_insert e pp (env_ipc_dstva (envs s ! e)) perm s of
                         (Inl r, s1) \<Rightarrow> (Inl r, s1)
                       | (Inr u, s1) \<Rightarrow> (Inr 0, update_ipc_fields e val perm s1))))
          else (Inr 0, update_ipc_fields e val 0 s))"

section \<open>The page-fault upcall\<close>

text \<open>
  \<open>page_fault_handler\<close> does not return to its caller when it reflects the fault:
  it leaves through \<open>env_run(curenv)\<close>. Its exits are the kernel panic, the upcall
  (the state in which \<open>env_run(curenv)\<close> is called, with the address and the value of
  the \<open>UTrapframe\<close> stored into the environment's memory), and the destruction of
  the environment (the state in which \<open>env_destroy(curenv)\<close> is called, by the handler
  itself or by \<open>user_mem_assert\<close>). The frame \<open>tf\<close> is \<open>curenv->env_tf\<close> (the
  source: "the 'tf' variable points at 'curenv->env_tf'"), and \<open>fault_va\<close> is what
  \<open>rcr2()\<close> reads.
\<close>

datatype pf_exit =
    Pf_Panic
  | Pf_Upcall kstate u32 UTrapframe
  | Pf_Destroy kstate

definition page_fault_handler :: "kconf \<Rightarrow> u32 \<Rightarrow> kstate \<Rightarrow> pf_exit" where
  "page_fault_handler K fault_va s =
     (let tf = env_tf (envs s ! curenv s) in
      if tf_cs tf AND 3 = 0 then Pf_Panic
      else if env_pgfault_upcall (envs s ! curenv s) \<noteq> 0 then
        (let utf = \<lparr>utf_fault_va = fault_va, utf_err = tf_err tf, utf_regs = tf_regs tf,
                    utf_eip = tf_eip tf, utf_eflags = tf_eflags tf, utf_esp = tf_esp tf\<rparr>;
             esp1 = (if tf_esp tf \<ge> UXSTACKTOP K - PGSIZE \<and> tf_esp tf < UXSTACKTOP K
                     then tf_esp tf - 4 else UXSTACKTOP K);
             esp2 = esp1 - sizeof_UTrapframe K;
             s1 = upd_env (curenv s) (\<lambda>env. env\<lparr>env_tf := (env_tf env)\<lparr>tf_esp := esp2\<rparr>\<rparr>) s
         in if \<not> user_mem_check (envs s1 ! curenv s1) esp2 (sizeof_UTrapframe K)
                   (PTE_U OR PTE_W OR PTE_P)
            then Pf_Destroy s1
            else Pf_Upcall
                   (upd_env (curenv s1)
                      (\<lambda>env. env\<lparr>env_tf := (env_tf env)\<lparr>tf_eip := env_pgfault_upcall env\<rparr>\<rparr>) s1)
                   esp2 utf)
      else Pf_Destroy s)"

text \<open>
  Modelled from the spec: \<open>env_run\<close> of kern/env.c. The saved trap frame is what "the
  scheduler restores from": the registers an environment resumes with are its saved
  frame at the moment it is run.
\<close>

definition resumed_frame :: "kstate \<Rightarrow> nat \<Rightarrow> Trapframe" where
  "resumed_frame s e = env_tf (envs s ! e)"

section \<open>A sample configuration and sample states\<close>

text \<open>
  One configuration, in which the witnesses below are evaluated: \<open>UTOP\<close> and
  \<open>UXSTACKTOP\<close> at \<open>0xeec00000\<close>, \<open>PTE_SYSCALL\<close> the present, writable and user
  bits with the three bits the hardware leaves to the operating system, the user
  data and code selectors \<open>0x20\<close> and \<open>0x18\<close>, a \<open>UTrapframe\<close> of 52 bytes, and identifiers that carry the slot number in their
  low ten bits. And a small kernel state: environment 0 is the running caller,
  with a read-only page at \<open>0x2000\<close>, a writable page at \<open>0x3000\<close>, its exception
  stack mapped and a page-fault upcall registered; environment 1 is its child,
  blocked in \<open>sys_ipc_recv\<close> with the receive address \<open>0x1000\<close> and one
  writable page at \<open>0x5000\<close>; slot 2 is free; environment 3 is a second child,
  runnable.
\<close>

definition jos_conf :: kconf where
  "jos_conf = \<lparr>UTOP = 0xeec00000, UXSTACKTOP = 0xeec00000, PTE_SYSCALL = 0xE07,
               GD_UD = 0x20, GD_UT = 0x18, sizeof_UTrapframe = 52,
               mkenvid = (\<lambda>i old. ((old + 0x1000) AND NOT 0x3FF) OR word_of_nat i)\<rparr>"

definition regs0 :: PushRegs where
  "regs0 = \<lparr>reg_edi = 0, reg_esi = 0, reg_ebp = 0, reg_oesp = 0, reg_ebx = 0, reg_edx = 0,
            reg_ecx = 0, reg_eax = 12\<rparr>"

definition tf0 :: Trapframe where
  "tf0 = \<lparr>tf_regs = regs0, tf_es = 0x23, tf_ds = 0x23, tf_trapno = 0x30, tf_err = 0,
          tf_eip = 0x800020, tf_cs = 0x1b, tf_eflags = 0x202, tf_esp = 0xeebfdfc0,
          tf_ss = 0x23\<rparr>"

definition as0 :: AddrSpace where
  "as0 = \<lparr>uvpd = (\<lambda>_. None)(0 := Some 10, 0x3BA := Some 13),
          uvpt = (\<lambda>_. 0)(2 := 0xB005, 3 := 0xF007, 0xEEBFF := 0xE007)\<rparr>"

definition as1 :: AddrSpace where
  "as1 = \<lparr>uvpd = (\<lambda>_. None)(0 := Some 12), uvpt = (\<lambda>_. 0)(5 := 0x10007)\<rparr>"

definition env0 :: Env where
  "env0 = \<lparr>env_tf = tf0, env_id = 0x1000, env_parent_id = 0, env_status = ENV_RUNNING,
           env_pgdir = as0, env_pgfault_upcall = 0x800100, env_ipc_recving = False,
           env_ipc_dstva = 0, env_ipc_value = 0, env_ipc_from = 0, env_ipc_perm = 0\<rparr>"

definition env1 :: Env where
  "env1 = \<lparr>env_tf = tf0, env_id = 0x1001, env_parent_id = 0x1000,
           env_status = ENV_NOT_RUNNABLE, env_pgdir = as1, env_pgfault_upcall = 0,
           env_ipc_recving = True, env_ipc_dstva = 0x1000, env_ipc_value = 0,
           env_ipc_from = 0, env_ipc_perm = 0\<rparr>"

definition env2 :: Env where
  "env2 = \<lparr>env_tf = tf0, env_id = 2, env_parent_id = 0, env_status = ENV_FREE,
           env_pgdir = \<lparr>uvpd = (\<lambda>_. None), uvpt = (\<lambda>_. 0)\<rparr>, env_pgfault_upcall = 0,
           env_ipc_recving = False, env_ipc_dstva = 0, env_ipc_value = 0, env_ipc_from = 0,
           env_ipc_perm = 0\<rparr>"

definition env3 :: Env where
  "env3 = \<lparr>env_tf = tf0, env_id = 0x1003, env_parent_id = 0x1000,
           env_status = ENV_RUNNABLE, env_pgdir = \<lparr>uvpd = (\<lambda>_. None), uvpt = (\<lambda>_. 0)\<rparr>,
           env_pgfault_upcall = 0x800100, env_ipc_recving = False, env_ipc_dstva = 0,
           env_ipc_value = 0, env_ipc_from = 0, env_ipc_perm = 0\<rparr>"

definition st0 :: kstate where
  "st0 = \<lparr>envs = [env0, env1, env2, env3], curenv = 0,
          pp_ref = (\<lambda>_. 0)(10 := 1, 11 := 1, 12 := 1, 13 := 1, 14 := 1, 15 := 1, 16 := 1),
          page_free_list = [20, 21], page_bytes = (\<lambda>_ _. 0xAA)\<rparr>"

text \<open>
  The state \<open>st0\<close> with the child's receive address at \<open>UTOP\<close>: the child asks
  for no page.
\<close>

definition st_far :: kstate where
  "st_far = st0\<lparr>envs := [env0, env1\<lparr>env_ipc_dstva := 0xeec00000\<rparr>, env2, env3]\<rparr>"

text \<open>
  \<open>pgdir_only e s s'\<close>: the state \<open>s'\<close> has the environments of \<open>s\<close> except for
  the address space of environment \<open>e\<close>, and the same current environment.
\<close>

definition pgdir_only :: "nat \<Rightarrow> kstate \<Rightarrow> kstate \<Rightarrow> bool" where
  "pgdir_only e s s' \<longleftrightarrow>
     curenv s' = curenv s \<and> (\<exists>pg. envs s' = (envs s)[e := (envs s ! e)\<lparr>env_pgdir := pg\<rparr>])"

text \<open>
  The state \<open>st0\<close> after the caller has mapped the child's page at \<open>0x5000\<close>
  (frame 16) at the same address in its own address space and filled it with the
  byte \<open>0x55\<close>; and the frame those bytes spell: every register \<open>0x55555555\<close>,
  every selector \<open>0x5555\<close>, in the flags the interrupt-enable flag clear and the
  I/O privilege level 1.
\<close>

definition st_tf :: kstate where
  "st_tf = st0\<lparr>envs := [env0\<lparr>env_pgdir := as0\<lparr>uvpt := (uvpt as0)(5 := 0x10007)\<rparr>\<rparr>, env1, env2, env3],
               pp_ref := (pp_ref st0)(16 := 2),
               page_bytes := (page_bytes st0)(16 := (\<lambda>_. 0x55))\<rparr>"

definition tf55 :: Trapframe where
  "tf55 = \<lparr>tf_regs = \<lparr>reg_edi = 0x55555555, reg_esi = 0x55555555, reg_ebp = 0x55555555,
                      reg_oesp = 0x55555555, reg_ebx = 0x55555555, reg_edx = 0x55555555,
                      reg_ecx = 0x55555555, reg_eax = 0x55555555\<rparr>,
           tf_es = 0x5555, tf_ds = 0x5555, tf_trapno = 0x55555555, tf_err = 0x55555555,
           tf_eip = 0x55555555, tf_cs = 0x5555, tf_eflags = 0x55555555, tf_esp = 0x55555555,
           tf_ss = 0x5555\<rparr>"

text \<open>The state that the system call leaves when environment 0 passes that frame for its child.\<close>

definition st_tf_set :: kstate where
  "st_tf_set =
     upd_env 1 (\<lambda>env. env\<lparr>env_tf := tf55\<lparr>tf_es := 0x23, tf_ds := 0x23, tf_cs := 0x1b,
                                             tf_eflags := 0x55554755, tf_ss := 0x23\<rparr>\<rparr>) st_tf"


text \<open>
  The state \<open>st0\<close> with the caller's trap-time stack pointer at \<open>UXSTACKTOP - 1\<close>,
  on its exception stack; and \<open>st0\<close> with environment 3 current, which has an
  upcall registered and no exception stack mapped.
\<close>

definition st_rec :: kstate where
  "st_rec = st0\<lparr>envs := [env0\<lparr>env_tf := tf0\<lparr>tf_esp := 0xeebfffff\<rparr>\<rparr>, env1, env2, env3]\<rparr>"

definition st_nox :: kstate where
  "st_nox = st0\<lparr>curenv := 3\<rparr>"


section \<open>Auxiliary facts\<close>

lemma envs_upd_env: "envs (upd_env e f s) = (envs s)[e := f (envs s ! e)]"
  by (simp add: upd_env_def)

lemma upd_env_other: "curenv (upd_env e f s) = curenv s" "pp_ref (upd_env e f s) = pp_ref s"
  "page_free_list (upd_env e f s) = page_free_list s" "page_bytes (upd_env e f s) = page_bytes s"
  by (simp_all add: upd_env_def)

lemma lookup_env_bound: "lookup_env xs envid = Some e \<Longrightarrow> e < length xs"
  by (induction xs arbitrary: e) (auto split: if_splits)

lemma envid2env_bound:
  "envid2env s envid cp = Inr e \<Longrightarrow> curenv s < length (envs s) \<Longrightarrow> e < length (envs s)"
  by (auto simp: envid2env_def split: if_splits option.splits dest: lookup_env_bound)

lemma update_ipc_fields_envs:
  "e < length (envs s) \<Longrightarrow>
   envs (update_ipc_fields e val perm s) =
     (envs s)[e := (envs s ! e)\<lparr>env_ipc_recving := False,
        env_ipc_from := env_id (envs s ! curenv s), env_ipc_value := val, env_ipc_perm := perm,
        env_status := ENV_RUNNABLE,
        env_tf := (env_tf (envs s ! e))\<lparr>tf_regs := (tf_regs (env_tf (envs s ! e)))\<lparr>reg_eax := 0\<rparr>\<rparr>\<rparr>]"
  by (cases "curenv s = e") (simp_all add: update_ipc_fields_def Let_def envs_upd_env upd_env_other)

lemma update_ipc_fields_other:
  "curenv (update_ipc_fields e val perm s) = curenv s"
  by (simp add: update_ipc_fields_def Let_def upd_env_other)

lemmas sample_defs = st_far_def st0_def env0_def env1_def env2_def env3_def as0_def as1_def tf0_def regs0_def jos_conf_def

lemma list_update_pgdir_twice:
  "(xs::Env list)[e := (xs[e := (xs ! e)\<lparr>env_pgdir := a\<rparr>] ! e)\<lparr>env_pgdir := b\<rparr>]
     = xs[e := (xs ! e)\<lparr>env_pgdir := b\<rparr>]"
  by (cases "e < length xs") (simp_all add: list_update_beyond)

lemma pgdir_only_refl: "pgdir_only e s s"
  unfolding pgdir_only_def
  by (rule conjI, simp, rule exI [of _ "env_pgdir (envs s ! e)"]) simp

lemma pgdir_only_trans: "pgdir_only e s s1 \<Longrightarrow> pgdir_only e s1 s2 \<Longrightarrow> pgdir_only e s s2"
proof -
  assume a: "pgdir_only e s s1" and b: "pgdir_only e s1 s2"
  from a obtain pg where 1: "curenv s1 = curenv s" "envs s1 = (envs s)[e := (envs s ! e)\<lparr>env_pgdir := pg\<rparr>]"
    unfolding pgdir_only_def by blast
  from b obtain pg' where 2: "curenv s2 = curenv s1" "envs s2 = (envs s1)[e := (envs s1 ! e)\<lparr>env_pgdir := pg'\<rparr>]"
    unfolding pgdir_only_def by blast
  have "envs s2 = (envs s)[e := (envs s ! e)\<lparr>env_pgdir := pg'\<rparr>]"
    unfolding 2(2) 1(2) by (simp add: list_update_pgdir_twice)
  with 1(1) 2(1) show ?thesis
    unfolding pgdir_only_def by auto
qed

lemma pgdir_only_upd:
  "pgdir_only e s (upd_env e (\<lambda>env. env\<lparr>env_pgdir := g env\<rparr>) s)"
  unfolding pgdir_only_def upd_env_def by auto

lemma pgdir_only_set_pte: "pgdir_only e s (set_pte e va pte s)"
  unfolding set_pte_def by (rule pgdir_only_upd)

lemma pgdir_only_same_envs: "envs s' = envs s \<Longrightarrow> curenv s' = curenv s \<Longrightarrow> pgdir_only e s s'"
  using pgdir_only_refl [of e s] unfolding pgdir_only_def by simp

lemma pgdir_only_decref: "pgdir_only e s (page_decref pp s)"
  by (rule pgdir_only_same_envs) (simp_all add: page_decref_def page_free_def Let_def)

lemma pgdir_only_remove: "pgdir_only e s (page_remove e va s)"
proof (cases "page_lookup (env_pgdir (envs s ! e)) va")
  case None
  then show ?thesis by (simp add: page_remove_def pgdir_only_refl)
next
  case (Some a)
  then show ?thesis
    by (cases a) (simp add: page_remove_def pgdir_only_trans [OF pgdir_only_decref pgdir_only_set_pte])
qed

lemma pgdir_only_walk: "pgdir_walk_create e va s = Some s' \<Longrightarrow> pgdir_only e s s'"
proof (cases "uvpd (env_pgdir (envs s ! e)) (PDX va) = None")
  case False
  assume "pgdir_walk_create e va s = Some s'"
  with False have "s' = s" by (simp add: pgdir_walk_create_def)
  then show ?thesis by (simp add: pgdir_only_refl)
next
  case True
  assume w: "pgdir_walk_create e va s = Some s'"
  from w True obtain pt s1 where a: "page_alloc True s = Some (pt, s1)"
    by (auto simp: pgdir_walk_create_def split: option.splits)
  let ?s2 = "s1\<lparr>pp_ref := (pp_ref s1)(pt := pp_ref s1 pt + 1)\<rparr>"
  from a have "envs s1 = envs s" "curenv s1 = curenv s"
    by (auto simp: page_alloc_def split: list.splits)
  then have 1: "pgdir_only e s ?s2"
    by (intro pgdir_only_same_envs) simp_all
  from w True a have "s' = upd_env e
                       (\<lambda>env. env\<lparr>env_pgdir :=
                          \<lparr>uvpd = (uvpd (env_pgdir env))(PDX va := Some pt),
                           uvpt = (\<lambda>n. if drop_bit 10 n = PDX va then 0 else uvpt (env_pgdir env) n)\<rparr>\<rparr>) ?s2"
    by (simp add: pgdir_walk_create_def)
  then show ?thesis
    using pgdir_only_trans [OF 1 pgdir_only_upd] by simp
qed

lemma pgdir_only_insert: "page_insert e pp va perm s = (r, s') \<Longrightarrow> pgdir_only e s s'"
proof (cases "pgdir_walk_create e va s")
  case None
  assume "page_insert e pp va perm s = (r, s')"
  with None have "s' = s" by (simp add: page_insert_def)
  then show ?thesis by (simp add: pgdir_only_refl)
next
  case (Some s1)
  assume i: "page_insert e pp va perm s = (r, s')"
  let ?s2 = "s1\<lparr>pp_ref := (pp_ref s1)(pp := pp_ref s1 pp + 1)\<rparr>"
  have 1: "pgdir_only e s1 ?s2"
    by (rule pgdir_only_same_envs) simp_all
  from i Some have "s' = set_pte e va (page2pa pp OR perm OR PTE_P) (page_remove e va ?s2)"
    by (simp add: page_insert_def Let_def)
  then show ?thesis
    using pgdir_only_trans [OF pgdir_only_walk [OF Some]
            pgdir_only_trans [OF 1 pgdir_only_trans [OF pgdir_only_remove pgdir_only_set_pte]]]
    by simp
qed

lemma lookup_env_update:
  "lookup_env xs i = Some e \<Longrightarrow> env_id x = i \<Longrightarrow> env_status x \<noteq> ENV_FREE \<Longrightarrow>
   lookup_env (xs[e := x]) i = Some e"
proof (induction xs arbitrary: e)
  case Nil
  then show ?case by simp
next
  case (Cons a xs)
  show ?case
  proof (cases "env_id a = i \<and> env_status a \<noteq> ENV_FREE")
    case True
    with Cons.prems show ?thesis by auto
  next
    case False
    with Cons.prems obtain e' where e': "lookup_env xs i = Some e'" "e = Suc e'"
      by auto
    from Cons.IH [OF e'(1) Cons.prems(2,3)] False e'(2) show ?thesis
      by auto
  qed
qed

lemma lookup_env_found:
  "lookup_env xs i = Some e \<Longrightarrow> env_id (xs ! e) = i \<and> env_status (xs ! e) \<noteq> ENV_FREE"
  by (induction xs arbitrary: e) (auto split: if_splits)

lemma ipc_try_send_success:
  assumes "sys_ipc_try_send K envid val srcva perm s = (Inr r, s')"
      and "envid2env s envid False = Inr e"
  shows "env_ipc_recving (envs s ! e) \<and> r = 0 \<and>
         (\<exists>s1. pgdir_only e s s1 \<and>
            s' = update_ipc_fields e val
                   (if env_ipc_dstva (envs s ! e) < UTOP K \<and> srcva < UTOP K then perm else 0) s1)"
proof (cases "env_ipc_dstva (envs s ! e) < UTOP K \<and> srcva < UTOP K")
  case False
  with assms have "env_ipc_recving (envs s ! e) \<and> r = 0 \<and> s' = update_ipc_fields e val 0 s"
    by (auto simp: sys_ipc_try_send_def split: if_splits)
  with False show ?thesis
    using pgdir_only_refl [of e s] by auto
next
  case True
  with assms obtain pp u s1 where
      rc: "env_ipc_recving (envs s ! e)"
    and ins: "page_insert e pp (env_ipc_dstva (envs s ! e)) perm s = (Inr u, s1)"
    and s': "s' = update_ipc_fields e val perm s1" and r: "r = 0"
    by (auto simp: sys_ipc_try_send_def split: if_splits option.splits prod.splits sum.splits)
  from pgdir_only_insert [OF ins] rc s' r True show ?thesis
    by auto
qed


lemma envid2env_after_update:
  assumes "envid2env s envid False = Inr e"
      and "curenv s' = curenv s"
      and "envs s' = (envs s)[e := x]"
      and "env_id x = env_id (envs s ! e)"
      and "env_status x \<noteq> ENV_FREE"
  shows "envid2env s' envid False = Inr e"
proof (cases "envid = 0")
  case True
  with assms(1,2) show ?thesis by (simp add: envid2env_def)
next
  case False
  with assms(1) have l: "lookup_env (envs s) envid = Some e"
    by (auto simp: envid2env_def split: option.splits)
  from lookup_env_found [OF l] assms(4) have "env_id x = envid" by simp
  from lookup_env_update [OF l this assms(5)] False assms(3) show ?thesis
    by (simp add: envid2env_def)
qed

lemmas eval_defs = sys_ipc_try_send_def envid2env_def page_lookup_def page_insert_def
  pgdir_walk_create_def page_remove_def page_decref_def page_free_def page_alloc_def set_pte_def
  upd_env_def update_ipc_fields_def PDX_def PGNUM_def PGOFF_def PTE_P_def PTE_W_def PTE_U_def
  pa2page_def PTE_ADDR_def page2pa_def Let_def

lemma send_ok: "fst (sys_ipc_try_send jos_conf 0x1001 42 0x3000 7 st0) = Inr 0"
  by (simp add: eval_defs sample_defs)

lemma send_res2: "envid2env ((snd (sys_ipc_try_send jos_conf 0x1001 42 0x3000 7 st0))\<lparr>curenv := 3\<rparr>) 0x1001 False = Inr 1"
  by (simp add: eval_defs sample_defs)

lemma send_far_ok: "fst (sys_ipc_try_send jos_conf 0x1001 42 0x3000 7 st_far) = Inr 0"
  by (simp add: eval_defs sample_defs)

lemma send_far_res2:
  "envid2env ((snd (sys_ipc_try_send jos_conf 0x1001 42 0x3000 7 st_far))\<lparr>curenv := 3\<rparr>) 0x1001 False = Inr 1"
  by (simp add: eval_defs sample_defs)

lemma clamp_gen:
  fixes x f m :: "'a::len word"
  assumes "f AND m = 0"
  shows "((x OR f) AND NOT m) AND f = f"
    and "((x OR f) AND NOT m) AND m = 0"
    and "((x OR f) AND NOT m) AND NOT (f OR m) = x AND NOT (f OR m)"
proof -
  from assms have d: "\<not> (bit f n \<and> bit m n)" for n
    by (auto simp add: bit_eq_iff bit_and_iff dest: bit_imp_le_length)
  show "((x OR f) AND NOT m) AND f = f"
    using d by (auto simp add: bit_eq_iff bit_and_iff bit_or_iff bit_not_iff)
  show "((x OR f) AND NOT m) AND m = 0"
    by (auto simp add: bit_eq_iff bit_and_iff bit_or_iff bit_not_iff)
  show "((x OR f) AND NOT m) AND NOT (f OR m) = x AND NOT (f OR m)"
    by (auto simp add: bit_eq_iff bit_and_iff bit_or_iff bit_not_iff)
qed

lemma if_iopl_disjoint: "FL_IF AND FL_IOPL_MASK = 0"
  by (simp add: FL_IF_def FL_IOPL_MASK_def)

lemmas eflags_clamp = clamp_gen [OF if_iopl_disjoint]

lemma bytes55: "kread_bytes st_tf (env_pgdir (envs st_tf ! curenv st_tf)) 0x5000 (unat sizeof_Trapframe) = Some (replicate 68 0x55)"
  by code_simp

lemma read_tf55: "read_Trapframe st_tf (env_pgdir (envs st_tf ! curenv st_tf)) 0x5000 = Some tf55"
  unfolding read_Trapframe_def bytes55
  by (simp add: Trapframe_of_bytes_def le16_def le32_def tf55_def)


lemma settf_chk: "user_mem_check (envs st_tf ! 1) 0x5000 sizeof_Trapframe PTE_U"
  by (simp add: user_mem_check_def sizeof_Trapframe_def eval_defs sample_defs st_tf_def)

lemma settf_res: "envid2env st_tf 0x1001 True = Inr 1"
  by (simp add: envid2env_def sample_defs st_tf_def)

lemma settf_run:
  "sys_env_set_trapframe jos_conf 0x1001 0x5000 st_tf =
     Sys_Return (Inr 0) st_tf_set"
proof -
  have len: "length (envs st_tf) = 4"
    by (simp add: st_tf_def st0_def)
  show ?thesis
    unfolding sys_env_set_trapframe_def settf_res
    using settf_chk read_tf55
    by (simp add: st_tf_set_def Let_def upd_env_def tf55_def jos_conf_def FL_IF_def FL_IOPL_MASK_def len)
qed

lemma settf_unmapped_source:
  "user_mem_check (envs st0 ! 1) 0x5000 sizeof_Trapframe PTE_U \<and>
   page_lookup (env_pgdir (envs st0 ! curenv st0)) 0x5000 = None \<and>
   sys_env_set_trapframe jos_conf 0x1001 0x5000 st0 = Sys_Panic"
proof -
  have chk: "user_mem_check (envs st0 ! 1) 0x5000 sizeof_Trapframe PTE_U"
    by (simp add: user_mem_check_def sizeof_Trapframe_def eval_defs sample_defs)
  have res: "envid2env st0 0x1001 True = Inr 1"
    by (simp add: envid2env_def sample_defs)
  have lk: "page_lookup (env_pgdir (envs st0 ! curenv st0)) 0x5000 = None"
    by (simp add: eval_defs sample_defs)
  have rd: "read_Trapframe st0 (env_pgdir (envs st0 ! curenv st0)) 0x5000 = None"
    by code_simp
  show ?thesis
    using chk lk by (simp add: sys_env_set_trapframe_def res rd)
qed

lemma first_free_found:
  "first_free xs = Some e \<Longrightarrow> e < length xs \<and> env_status (xs ! e) = ENV_FREE"
  by (induction xs arbitrary: e) (auto split: if_splits)

lemma env_alloc_success:
  assumes "env_alloc K pid s = (Inr e, s1)"
  shows "e < length (envs s) \<and> env_status (envs s ! e) = ENV_FREE \<and> curenv s1 = curenv s \<and>
         length (envs s1) = length (envs s) \<and>
         (\<forall>i. i \<noteq> e \<longrightarrow> envs s1 ! i = envs s ! i) \<and>
         env_id (envs s1 ! e) = mkenvid K e (env_id (envs s ! e)) \<and>
         env_parent_id (envs s1 ! e) = pid"
proof -
  from assms obtain pd s0 where ff: "first_free (envs s) = Some e"
      and pa: "page_alloc True s = Some (pd, s0)"
    by (auto simp: env_alloc_def split: option.splits)
  from pa have s0: "envs s0 = envs s" "curenv s0 = curenv s"
    by (auto simp: page_alloc_def split: list.splits)
  from assms ff pa have s1: "s1 = upd_env e
                  (\<lambda>env. env\<lparr>env_id := mkenvid K e (env_id env),
                             env_parent_id := pid,
                             env_status := ENV_RUNNABLE,
                             env_pgdir := \<lparr>uvpd = (\<lambda>_. None), uvpt = (\<lambda>_. 0)\<rparr>,
                             env_pgfault_upcall := 0,
                             env_ipc_recving := False\<rparr>)
                  (s0\<lparr>pp_ref := (pp_ref s0)(pd := pp_ref s0 pd + 1)\<rparr>)"
    by (simp add: env_alloc_def)
  from first_free_found [OF ff] show ?thesis
    by (simp add: s1 upd_env_def s0)
qed

lemma exofork_ok: "fst (sys_exofork jos_conf st0) = Inr 0x1002"
  by (simp add: sys_exofork_def env_alloc_def eval_defs sample_defs)

lemmas sample2_defs = st_rec_def st_nox_def

lemma and_or_sub: "(x::'a::len word) AND (a OR b) = a OR b \<longleftrightarrow> x AND a = a \<and> x AND b = b"
  by (auto simp add: bit_eq_iff bit_and_iff bit_or_iff)

lemma mask12: "(0xFFF::u32) = mask 12"
  by (simp add: mask_eq_exp_minus_1)

lemma PGOFF_aligned: "PGOFF va = 0 \<longleftrightarrow> unat PGSIZE dvd unat va"
  unfolding PGOFF_def mask12 PGSIZE_def using and_mask_dvd_nat [of 12 va] by simp

lemma page_below: "PGOFF u = 0 \<Longrightarrow> PGSIZE \<le> u \<Longrightarrow> PGOFF (u - PGSIZE) = 0 \<and> u - PGSIZE < u"
  unfolding PGOFF_aligned unfolding PGSIZE_def
  by (simp add: unat_sub word_less_nat_alt word_le_nat_alt)

lemma page_insert_error: "fst (page_insert e pp va perm s) = Inl r \<Longrightarrow> r = E_NO_MEM"
  by (auto simp: page_insert_def Let_def split: option.splits)

lemma page_alloc_not_inval:
  assumes res: "envid2env s envid True = Inr e"
  shows "fst (sys_page_alloc K envid va perm s) = Inl E_INVAL \<longleftrightarrow>
           (UTOP K \<le> va \<or> PGOFF va \<noteq> 0 \<or>
            perm AND (PTE_U OR PTE_P) \<noteq> (PTE_U OR PTE_P) \<or> perm AND NOT (PTE_SYSCALL K) \<noteq> 0)"
proof (cases "UTOP K \<le> va \<or> PGOFF va \<noteq> 0 \<or>
            perm AND (PTE_U OR PTE_P) \<noteq> (PTE_U OR PTE_P) \<or> perm AND NOT (PTE_SYSCALL K) \<noteq> 0")
  case True
  then show ?thesis
    using res by (auto simp: sys_page_alloc_def)
next
  case False
  have "fst (sys_page_alloc K envid va perm s) \<noteq> Inl E_INVAL"
  proof (cases "page_alloc True s")
    case None
    with False res show ?thesis by (simp add: sys_page_alloc_def)
  next
    case (Some a)
    obtain pp s1 where a: "a = (pp, s1)" by (cases a)
    obtain r s2 where i: "page_insert e pp va perm s1 = (r, s2)" by (cases "page_insert e pp va perm s1")
    show ?thesis
    proof (cases r)
      case (Inl err)
      with i page_insert_error [of e pp va perm s1 err] have "err = E_NO_MEM" by simp
      with False res Some a i Inl show ?thesis by (simp add: sys_page_alloc_def)
    next
      case (Inr u)
      with False res Some a i show ?thesis by (simp add: sys_page_alloc_def)
    qed
  qed
  with False show ?thesis by simp
qed

lemma lookup_env_pgdir:
  "lookup_env (xs[e := (xs ! e)\<lparr>env_pgdir := pg\<rparr>]) i = lookup_env xs i"
proof (induction xs arbitrary: e)
  case Nil
  then show ?case by simp
next
  case (Cons a xs)
  then show ?case by (cases e) simp_all
qed

lemma nth_update_pgdir:
  "(xs[e := (xs ! e)\<lparr>env_pgdir := pg\<rparr>]) ! j =
     (if j = e \<and> e < length xs then (xs ! e)\<lparr>env_pgdir := pg\<rparr> else xs ! j)"
  by (cases "e < length xs") (auto simp: list_update_beyond)

lemma envid2env_pgdir_only:
  assumes "pgdir_only e s s'"
  shows "envid2env s' envid cp = envid2env s envid cp"
proof -
  from assms obtain pg where c: "curenv s' = curenv s"
      and es: "envs s' = (envs s)[e := (envs s ! e)\<lparr>env_pgdir := pg\<rparr>]"
    unfolding pgdir_only_def by blast
  have f: "env_parent_id (envs s' ! j) = env_parent_id (envs s ! j)"
       "env_id (envs s' ! j) = env_id (envs s ! j)" for j
    by (simp_all add: es nth_update_pgdir)
  have l: "lookup_env (envs s') envid = lookup_env (envs s) envid"
    by (simp add: es lookup_env_pgdir)
  show ?thesis
    unfolding envid2env_def l c f by (rule refl)
qed

lemma page_remove_twice:
  assumes "e < length (envs s)"
  shows "page_remove e va (page_remove e va s) = page_remove e va s"
proof (cases "page_lookup (env_pgdir (envs s ! e)) va")
  case None
  then show ?thesis by (simp add: page_remove_def)
next
  case (Some a)
  obtain pp pte where a: "a = (pp, pte)" by (cases a)
  let ?s1 = "set_pte e va 0 (page_decref pp s)"
  have s1: "page_remove e va s = ?s1"
    using Some a by (simp add: page_remove_def)
  have len: "e < length (envs (page_decref pp s))"
    using assms by (simp add: page_decref_def page_free_def Let_def)
  have "uvpt (env_pgdir (envs ?s1 ! e)) (PGNUM va) = 0"
    using len by (simp add: set_pte_def upd_env_def)
  then have "page_lookup (env_pgdir (envs ?s1 ! e)) va = None"
    by (simp add: page_lookup_def)
  then show ?thesis
    unfolding s1 by (simp add: page_remove_def)
qed

lemma or_and_absorb: "((a::'a::len word) OR b) AND b = b"
  by (auto simp add: bit_eq_iff bit_and_iff bit_or_iff)

lemma realloc_ok: "fst (sys_page_alloc jos_conf 0 0x3000 7 st0) = Inr 0"
  by (simp add: sys_page_alloc_def eval_defs sample_defs)

lemma realloc_lookup:
  "page_lookup (env_pgdir (envs (snd (sys_page_alloc jos_conf 0 0x3000 7 st0)) ! 0)) 0x3000 =
     Some (20, 0x14007)"
  by (simp add: sys_page_alloc_def eval_defs sample_defs)

lemma ipc_write_check_dead: "pte OR PTE_W \<noteq> 0"
  by (simp add: PTE_W_def or_eq_0_iff)

lemma pgdir_only_length: "pgdir_only e s s' \<Longrightarrow> length (envs s') = length (envs s)"
  unfolding pgdir_only_def by auto

lemma set_pte_uvpd:
  "uvpd (env_pgdir (envs (set_pte e va p s) ! e)) = uvpd (env_pgdir (envs s ! e))"
  by (cases "e < length (envs s)") (simp_all add: set_pte_def upd_env_def list_update_beyond)

lemma page_decref_envs: "envs (page_decref pp s) = envs s"
  by (simp add: page_decref_def page_free_def Let_def)

lemma page_remove_uvpd:
  "uvpd (env_pgdir (envs (page_remove e va s) ! e)) = uvpd (env_pgdir (envs s ! e))"
proof (cases "page_lookup (env_pgdir (envs s ! e)) va")
  case None
  then show ?thesis by (simp add: page_remove_def)
next
  case (Some a)
  then show ?thesis
    by (cases a) (simp add: page_remove_def set_pte_uvpd page_decref_envs)
qed

lemma pgdir_walk_covers:
  assumes "pgdir_walk_create e va s = Some s1" and "e < length (envs s)"
  shows "uvpd (env_pgdir (envs s1 ! e)) (PDX va) \<noteq> None"
proof (cases "uvpd (env_pgdir (envs s ! e)) (PDX va) = None")
  case False
  with assms(1) have "s1 = s" by (simp add: pgdir_walk_create_def)
  with False show ?thesis by simp
next
  case True
  with assms(1) obtain pt s0 where a: "page_alloc True s = Some (pt, s0)"
    by (auto simp: pgdir_walk_create_def split: option.splits)
  then have "envs s0 = envs s"
    by (auto simp: page_alloc_def split: list.splits)
  with assms True a show ?thesis
    by (auto simp: pgdir_walk_create_def upd_env_def)
qed

lemma page_insert_maps:
  assumes ins: "page_insert e pp va perm s = (Inr u, s')" and len: "e < length (envs s)"
  shows "page_lookup (env_pgdir (envs s' ! e)) va =
           Some (pa2page (PTE_ADDR (page2pa pp OR perm OR PTE_P)), page2pa pp OR perm OR PTE_P)"
proof -
  let ?new = "page2pa pp OR perm OR PTE_P"
  from ins obtain s1 where w: "pgdir_walk_create e va s = Some s1"
    by (auto simp: page_insert_def split: option.splits)
  let ?s2 = "s1\<lparr>pp_ref := (pp_ref s1)(pp := pp_ref s1 pp + 1)\<rparr>"
  let ?s3 = "page_remove e va ?s2"
  from ins w have s': "s' = set_pte e va ?new ?s3"
    by (simp add: page_insert_def Let_def)
  have len1: "e < length (envs s1)"
    using pgdir_only_length [OF pgdir_only_walk [OF w]] len by simp
  have len3: "e < length (envs ?s3)"
    using pgdir_only_length [OF pgdir_only_remove [of e ?s2 va]] len1 by simp
  have pd: "uvpd (env_pgdir (envs s' ! e)) (PDX va) \<noteq> None"
    unfolding s' set_pte_uvpd page_remove_uvpd using pgdir_walk_covers [OF w len] by simp
  have pt: "uvpt (env_pgdir (envs s' ! e)) (PGNUM va) = ?new"
    unfolding s' using len3 by (simp add: set_pte_def upd_env_def)
  have "?new AND PTE_P = PTE_P"
    using or_and_absorb [of "page2pa pp OR perm" PTE_P] by (simp only: or.assoc)
  then have pne: "?new AND PTE_P \<noteq> 0"
    by (simp add: PTE_P_def)
  from pd pt pne show ?thesis
    by (simp add: page_lookup_def Let_def)
qed

lemma update_ipc_fields_pgdir:
  "e < length (envs s) \<Longrightarrow>
   env_pgdir (envs (update_ipc_fields e val perm s) ! e) = env_pgdir (envs s ! e)"
  by (simp add: update_ipc_fields_envs)

lemma update_ipc_fields_pages:
  "pp_ref (update_ipc_fields e val perm s) = pp_ref s"
  "page_free_list (update_ipc_fields e val perm s) = page_free_list s"
  by (simp_all add: update_ipc_fields_def Let_def upd_env_other)

lemma ipc_try_send_success_cases:
  assumes "sys_ipc_try_send K envid val srcva perm s = (Inr r, s')"
      and "envid2env s envid False = Inr e"
  shows "if env_ipc_dstva (envs s ! e) < UTOP K \<and> srcva < UTOP K
         then \<exists>pp pte u s1. page_lookup (env_pgdir (envs s ! curenv s)) srcva = Some (pp, pte) \<and>
                page_insert e pp (env_ipc_dstva (envs s ! e)) perm s = (Inr u, s1) \<and>
                s' = update_ipc_fields e val perm s1
         else s' = update_ipc_fields e val 0 s"
proof (cases "env_ipc_dstva (envs s ! e) < UTOP K \<and> srcva < UTOP K")
  case False
  with assms show ?thesis
    by (auto simp: sys_ipc_try_send_def split: if_splits)
next
  case True
  with assms show ?thesis
    by (auto simp: sys_ipc_try_send_def split: if_splits option.splits prod.splits sum.splits)
qed

section \<open>The claims\<close>

text \<open>
  C1: what \<open>sys_ipc_try_send\<close> does where the claim expects \<open>-E_INVAL\<close>. The
  destination is receive-blocked with a receive address below \<open>UTOP\<close>, \<open>srcva\<close>
  is below \<open>UTOP\<close>, page-aligned and mapped in the sender's address space, \<open>perm\<close>
  is a permitted permission word that requests the write bit, and the sender's
  page-table entry at \<open>srcva\<close> has the write bit clear. The source tests
  \<open>(perm & PTE_W) && !(*pte | PTE_W)\<close>, and \<open>*pte | PTE_W\<close> is never zero: the call
  does not return \<open>-E_INVAL\<close>; it goes on to \<open>page_insert\<close> and returns 0
  whenever that succeeds. In the sample state the read-only page at \<open>0x2000\<close> ends
  up mapped writable in the receiver.
\<close>

theorem ipc_try_send_write_check_never_fires:
  assumes res: "envid2env s envid False = Inr e"
      and recv: "env_ipc_recving (envs s ! e)"
      and dst: "env_ipc_dstva (envs s ! e) < UTOP K"
      and src: "srcva < UTOP K" "unat PGSIZE dvd unat srcva"
      and perm: "perm AND PTE_U = PTE_U" "perm AND PTE_P = PTE_P" "perm AND NOT (PTE_SYSCALL K) = 0"
      and wr: "perm AND PTE_W \<noteq> 0"
      and map: "page_lookup (env_pgdir (envs s ! curenv s)) srcva = Some (pp, pte)"
      and ro: "pte AND PTE_W = 0"
  shows "fst (sys_ipc_try_send K envid val srcva perm s) \<noteq> Inl E_INVAL \<and>
         (fst (sys_ipc_try_send K envid val srcva perm s) = Inr 0 \<longleftrightarrow>
            fst (page_insert e pp (env_ipc_dstva (envs s ! e)) perm s) = Inr ())"
proof -
  obtain r s1 where i: "page_insert e pp (env_ipc_dstva (envs s ! e)) perm s = (r, s1)"
    by (cases "page_insert e pp (env_ipc_dstva (envs s ! e)) perm s")
  have al: "PGOFF srcva = 0"
    using src(2) by (simp add: PGOFF_aligned)
  have up: "perm AND (PTE_U OR PTE_P) = PTE_U OR PTE_P"
    using perm(1,2) by (simp add: and_or_sub)
  show ?thesis
  proof (cases r)
    case (Inl err)
    with i page_insert_error [of e pp "env_ipc_dstva (envs s ! e)" perm s err] have "err = E_NO_MEM"
      by simp
    with res recv dst src(1) al up perm(3) map i Inl show ?thesis
      by (simp add: sys_ipc_try_send_def ipc_write_check_dead)
  next
    case (Inr u)
    with res recv dst src(1) al up perm(3) map i show ?thesis
      by (simp add: sys_ipc_try_send_def ipc_write_check_dead)
  qed
qed

theorem ipc_try_send_write_check_never_fires_witness:
  "page_lookup (env_pgdir (envs st0 ! curenv st0)) 0x2000 = Some (11, 0xB005) \<and>
   7 AND PTE_W \<noteq> 0 \<and>
   0xB005 AND PTE_W = 0 \<and>
   fst (sys_ipc_try_send jos_conf 0x1001 42 0x2000 7 st0) \<noteq> Inl E_INVAL \<and>
   fst (sys_ipc_try_send jos_conf 0x1001 42 0x2000 7 st0) = Inr 0 \<and>
   page_lookup (env_pgdir (envs (snd (sys_ipc_try_send jos_conf 0x1001 42 0x2000 7 st0)) ! 1)) 0x1000 =
     Some (11, 0xB007) \<and>
   env_ipc_perm (envs (snd (sys_ipc_try_send jos_conf 0x1001 42 0x2000 7 st0)) ! 1) = 7"
proof -
  have res: "envid2env st0 0x1001 False = Inr 1"
    by (simp add: envid2env_def sample_defs)
  have recv: "env_ipc_recving (envs st0 ! 1)"
    by (simp add: sample_defs)
  have dst: "env_ipc_dstva (envs st0 ! 1) < UTOP jos_conf"
    by (simp add: sample_defs)
  have src: "0x2000 < UTOP jos_conf" "unat PGSIZE dvd unat (0x2000::u32)"
    by (simp_all add: jos_conf_def PGSIZE_def)
  have perm: "7 AND PTE_U = PTE_U" "7 AND PTE_P = PTE_P" "7 AND NOT (PTE_SYSCALL jos_conf) = 0"
      "7 AND PTE_W \<noteq> 0"
    by (simp_all add: jos_conf_def PTE_U_def PTE_P_def PTE_W_def)
  have map: "page_lookup (env_pgdir (envs st0 ! curenv st0)) 0x2000 = Some (11, 0xB005)"
    by (simp add: eval_defs sample_defs)
  have ro: "0xB005 AND PTE_W = 0"
    by (simp add: PTE_W_def)
  have ins: "fst (page_insert 1 11 (env_ipc_dstva (envs st0 ! 1)) 7 st0) = Inr ()"
    by (simp add: eval_defs sample_defs)
  have post: "page_lookup (env_pgdir (envs (snd (sys_ipc_try_send jos_conf 0x1001 42 0x2000 7 st0)) ! 1)) 0x1000 =
     Some (11, 0xB007)"
      "env_ipc_perm (envs (snd (sys_ipc_try_send jos_conf 0x1001 42 0x2000 7 st0)) ! 1) = 7"
    by (simp_all add: eval_defs sample_defs)
  show ?thesis
    using ipc_try_send_write_check_never_fires [OF res recv dst src perm map ro, of 42] ins map perm(4) ro post by blast
qed

text \<open>
  C2: after a successful \<open>sys_ipc_try_send(dst_id, value, srcva, perm)\<close> the
  destination has \<open>env_ipc_recving\<close> 0, \<open>env_ipc_from\<close> the caller's identifier,
  \<open>env_ipc_value\<close> the value, \<open>env_ipc_perm\<close> equal to \<open>perm\<close> if a page was
  transferred and 0 otherwise, status \<open>ENV_RUNNABLE\<close> and saved \<open>eax\<close> 0. A page
  is transferred exactly when the receive address and \<open>srcva\<close> are both below
  \<open>UTOP\<close>: then the frame that the sender maps at \<open>srcva\<close> is mapped in the
  destination at its receive address, with \<open>perm\<close> and the present bit; otherwise
  the destination's address space, the reference counts and the free list are
  untouched. A second send to the same destination in the state the first one
  leaves, by the same caller or by any other environment \<open>c2\<close> whose identifier
  \<open>envid2\<close> names that destination, fails with \<open>-E_IPC_NOT_RECV\<close>.
\<close>

theorem ipc_try_send_success_fields:
  assumes ok: "sys_ipc_try_send K envid val srcva perm s = (Inr r, s')"
      and res: "envid2env s envid False = Inr e"
      and cur: "curenv s < length (envs s)"
      and res2: "envid2env (s'\<lparr>curenv := c2\<rparr>) envid2 False = Inr e"
  shows "\<not> env_ipc_recving (envs s' ! e) \<and>
         env_ipc_from (envs s' ! e) = env_id (envs s ! curenv s) \<and>
         env_ipc_value (envs s' ! e) = val \<and>
         env_ipc_perm (envs s' ! e) =
           (if env_ipc_dstva (envs s ! e) < UTOP K \<and> srcva < UTOP K then perm else 0) \<and>
         env_status (envs s' ! e) = ENV_RUNNABLE \<and>
         reg_eax (tf_regs (env_tf (envs s' ! e))) = 0 \<and>
         fst (sys_ipc_try_send K envid val2 srcva2 perm2 s') = Inl E_IPC_NOT_RECV \<and>
         fst (sys_ipc_try_send K envid2 val3 srcva3 perm3 (s'\<lparr>curenv := c2\<rparr>)) = Inl E_IPC_NOT_RECV \<and>
         (if env_ipc_dstva (envs s ! e) < UTOP K \<and> srcva < UTOP K
          then \<exists>pp pte. page_lookup (env_pgdir (envs s ! curenv s)) srcva = Some (pp, pte) \<and>
                 page_lookup (env_pgdir (envs s' ! e)) (env_ipc_dstva (envs s ! e)) =
                   Some (pa2page (PTE_ADDR (page2pa pp OR perm OR PTE_P)), page2pa pp OR perm OR PTE_P)
          else env_pgdir (envs s' ! e) = env_pgdir (envs s ! e) \<and>
               pp_ref s' = pp_ref s \<and> page_free_list s' = page_free_list s)"
proof -
  let ?P = "if env_ipc_dstva (envs s ! e) < UTOP K \<and> srcva < UTOP K then perm else 0"
  have len: "e < length (envs s)"
    using res cur by (rule envid2env_bound)
  from ipc_try_send_success [OF ok res] obtain s1 where
      po: "pgdir_only e s s1" and s': "s' = update_ipc_fields e val ?P s1"
    by blast
  from po obtain pg where
      c1: "curenv s1 = curenv s" and e1: "envs s1 = (envs s)[e := (envs s ! e)\<lparr>env_pgdir := pg\<rparr>]"
    unfolding pgdir_only_def by blast
  have len1: "e < length (envs s1)"
    using len e1 by simp
  have id1: "env_id (envs s1 ! curenv s1) = env_id (envs s ! curenv s)"
    using len cur by (cases "curenv s = e") (simp_all add: c1 e1)
  have es': "envs s' = (envs s1)[e := (envs s1 ! e)\<lparr>env_ipc_recving := False,
        env_ipc_from := env_id (envs s1 ! curenv s1), env_ipc_value := val, env_ipc_perm := ?P,
        env_status := ENV_RUNNABLE,
        env_tf := (env_tf (envs s1 ! e))\<lparr>tf_regs := (tf_regs (env_tf (envs s1 ! e)))\<lparr>reg_eax := 0\<rparr>\<rparr>\<rparr>]"
    unfolding s' by (rule update_ipc_fields_envs [OF len1])
  have cs': "curenv s' = curenv s"
    unfolding s' by (simp add: update_ipc_fields_other c1)
  have fields: "\<not> env_ipc_recving (envs s' ! e)"
      "env_ipc_from (envs s' ! e) = env_id (envs s ! curenv s)"
      "env_ipc_value (envs s' ! e) = val"
      "env_ipc_perm (envs s' ! e) = ?P"
      "env_status (envs s' ! e) = ENV_RUNNABLE"
      "reg_eax (tf_regs (env_tf (envs s' ! e))) = 0"
    using len1 id1 by (simp_all add: es')
  have same: "envid2env s' envid False = Inr e"
  proof (rule envid2env_after_update [OF res cs'])
    show "envs s' = (envs s)[e := envs s' ! e]"
      using len by (simp add: es' e1)
    show "env_id (envs s' ! e) = env_id (envs s ! e)"
      using len by (simp add: es' e1)
    show "env_status (envs s' ! e) \<noteq> ENV_FREE"
      using fields(5) by simp
  qed
  have again: "fst (sys_ipc_try_send K envid val2 srcva2 perm2 s') = Inl E_IPC_NOT_RECV"
    using same fields(1) by (simp add: sys_ipc_try_send_def)
  have other: "fst (sys_ipc_try_send K envid2 val3 srcva3 perm3 (s'\<lparr>curenv := c2\<rparr>)) = Inl E_IPC_NOT_RECV"
    using res2 fields(1) by (simp add: sys_ipc_try_send_def)
  have page: "if env_ipc_dstva (envs s ! e) < UTOP K \<and> srcva < UTOP K
          then \<exists>pp pte. page_lookup (env_pgdir (envs s ! curenv s)) srcva = Some (pp, pte) \<and>
                 page_lookup (env_pgdir (envs s' ! e)) (env_ipc_dstva (envs s ! e)) =
                   Some (pa2page (PTE_ADDR (page2pa pp OR perm OR PTE_P)), page2pa pp OR perm OR PTE_P)
          else env_pgdir (envs s' ! e) = env_pgdir (envs s ! e) \<and>
               pp_ref s' = pp_ref s \<and> page_free_list s' = page_free_list s"
  proof (cases "env_ipc_dstva (envs s ! e) < UTOP K \<and> srcva < UTOP K")
    case True
    with ipc_try_send_success_cases [OF ok res] obtain pp pte u s2 where
        lk: "page_lookup (env_pgdir (envs s ! curenv s)) srcva = Some (pp, pte)"
      and ins: "page_insert e pp (env_ipc_dstva (envs s ! e)) perm s = (Inr u, s2)"
      and s2: "s' = update_ipc_fields e val perm s2"
      by auto
    have len2: "e < length (envs s2)"
      using pgdir_only_length [OF pgdir_only_insert [OF ins]] len by simp
    have "page_lookup (env_pgdir (envs s' ! e)) (env_ipc_dstva (envs s ! e)) =
            Some (pa2page (PTE_ADDR (page2pa pp OR perm OR PTE_P)), page2pa pp OR perm OR PTE_P)"
      unfolding s2 update_ipc_fields_pgdir [OF len2] by (rule page_insert_maps [OF ins len])
    with lk True show ?thesis by auto
  next
    case False
    with ipc_try_send_success_cases [OF ok res] have "s' = update_ipc_fields e val 0 s"
      by auto
    with False len show ?thesis
      by (auto simp add: update_ipc_fields_pgdir update_ipc_fields_pages)
  qed
  from fields again other page show ?thesis
    by simp
qed

theorem ipc_try_send_success_fields_witness:
  "fst (sys_ipc_try_send jos_conf 0x1001 42 0x3000 7 st0) = Inr 0 \<and>
   \<not> env_ipc_recving (envs (snd (sys_ipc_try_send jos_conf 0x1001 42 0x3000 7 st0)) ! 1) \<and>
   env_ipc_from (envs (snd (sys_ipc_try_send jos_conf 0x1001 42 0x3000 7 st0)) ! 1) = 0x1000 \<and>
   env_ipc_value (envs (snd (sys_ipc_try_send jos_conf 0x1001 42 0x3000 7 st0)) ! 1) = 42 \<and>
   env_ipc_perm (envs (snd (sys_ipc_try_send jos_conf 0x1001 42 0x3000 7 st0)) ! 1) = 7 \<and>
   env_status (envs (snd (sys_ipc_try_send jos_conf 0x1001 42 0x3000 7 st0)) ! 1) = ENV_RUNNABLE \<and>
   reg_eax (tf_regs (env_tf (envs (snd (sys_ipc_try_send jos_conf 0x1001 42 0x3000 7 st0)) ! 1))) = 0 \<and>
   fst (sys_ipc_try_send jos_conf 0x1001 43 0x3000 7
          (snd (sys_ipc_try_send jos_conf 0x1001 42 0x3000 7 st0))) = Inl E_IPC_NOT_RECV \<and>
   fst (sys_ipc_try_send jos_conf 0x1001 44 0x3000 7
          ((snd (sys_ipc_try_send jos_conf 0x1001 42 0x3000 7 st0))\<lparr>curenv := 3\<rparr>)) = Inl E_IPC_NOT_RECV \<and>
   page_lookup (env_pgdir (envs st0 ! curenv st0)) 0x3000 = Some (15, 0xF007) \<and>
   page_lookup (env_pgdir (envs st0 ! 1)) 0x1000 = None \<and>
   page_lookup (env_pgdir (envs (snd (sys_ipc_try_send jos_conf 0x1001 42 0x3000 7 st0)) ! 1)) 0x1000 =
     Some (15, 0xF007) \<and>
   fst (sys_ipc_try_send jos_conf 0x1001 42 0x3000 7 st_far) = Inr 0 \<and>
   env_ipc_perm (envs (snd (sys_ipc_try_send jos_conf 0x1001 42 0x3000 7 st_far)) ! 1) = 0 \<and>
   env_pgdir (envs (snd (sys_ipc_try_send jos_conf 0x1001 42 0x3000 7 st_far)) ! 1) =
     env_pgdir (envs st_far ! 1)"
proof -
  have ok: "sys_ipc_try_send jos_conf 0x1001 42 0x3000 7 st0 =
              (Inr 0, snd (sys_ipc_try_send jos_conf 0x1001 42 0x3000 7 st0))"
    using send_ok by (simp add: prod_eq_iff)
  have res: "envid2env st0 0x1001 False = Inr 1"
    by (simp add: envid2env_def sample_defs)
  have cur: "curenv st0 < length (envs st0)"
    by (simp add: sample_defs)
  have h: "UTOP jos_conf = 0xeec00000" "env_ipc_dstva (envs st0 ! Suc 0) = 0x1000"
      "env_id (envs st0 ! curenv st0) = 0x1000"
      "page_lookup (env_pgdir (envs st0 ! curenv st0)) 0x3000 = Some (15, 0xF007)"
      "page_lookup (env_pgdir (envs st0 ! Suc 0)) 0x1000 = None"
    by (simp_all add: eval_defs sample_defs)
  have 1: "fst (sys_ipc_try_send jos_conf 0x1001 42 0x3000 7 st0) = Inr 0 \<and>
   \<not> env_ipc_recving (envs (snd (sys_ipc_try_send jos_conf 0x1001 42 0x3000 7 st0)) ! 1) \<and>
   env_ipc_from (envs (snd (sys_ipc_try_send jos_conf 0x1001 42 0x3000 7 st0)) ! 1) = 0x1000 \<and>
   env_ipc_value (envs (snd (sys_ipc_try_send jos_conf 0x1001 42 0x3000 7 st0)) ! 1) = 42 \<and>
   env_ipc_perm (envs (snd (sys_ipc_try_send jos_conf 0x1001 42 0x3000 7 st0)) ! 1) = 7 \<and>
   env_status (envs (snd (sys_ipc_try_send jos_conf 0x1001 42 0x3000 7 st0)) ! 1) = ENV_RUNNABLE \<and>
   reg_eax (tf_regs (env_tf (envs (snd (sys_ipc_try_send jos_conf 0x1001 42 0x3000 7 st0)) ! 1))) = 0 \<and>
   fst (sys_ipc_try_send jos_conf 0x1001 43 0x3000 7
          (snd (sys_ipc_try_send jos_conf 0x1001 42 0x3000 7 st0))) = Inl E_IPC_NOT_RECV \<and>
   fst (sys_ipc_try_send jos_conf 0x1001 44 0x3000 7
          ((snd (sys_ipc_try_send jos_conf 0x1001 42 0x3000 7 st0))\<lparr>curenv := 3\<rparr>)) = Inl E_IPC_NOT_RECV \<and>
   page_lookup (env_pgdir (envs (snd (sys_ipc_try_send jos_conf 0x1001 42 0x3000 7 st0)) ! 1)) 0x1000 =
     Some (15, 0xF007)"
    using ipc_try_send_success_fields [OF ok res cur send_res2, of 43 "0x3000" 7 44 "0x3000" 7]
    by (simp add: h send_ok page2pa_def pa2page_def PTE_ADDR_def PGNUM_def PTE_P_def)
  have ok': "sys_ipc_try_send jos_conf 0x1001 42 0x3000 7 st_far =
              (Inr 0, snd (sys_ipc_try_send jos_conf 0x1001 42 0x3000 7 st_far))"
    using send_far_ok by (simp add: prod_eq_iff)
  have res': "envid2env st_far 0x1001 False = Inr 1"
    by (simp add: envid2env_def sample_defs)
  have cur': "curenv st_far < length (envs st_far)"
    by (simp add: sample_defs)
  have h': "env_ipc_dstva (envs st_far ! Suc 0) = 0xeec00000"
    by (simp add: sample_defs)
  have 2: "fst (sys_ipc_try_send jos_conf 0x1001 42 0x3000 7 st_far) = Inr 0 \<and>
   env_ipc_perm (envs (snd (sys_ipc_try_send jos_conf 0x1001 42 0x3000 7 st_far)) ! 1) = 0 \<and>
   env_pgdir (envs (snd (sys_ipc_try_send jos_conf 0x1001 42 0x3000 7 st_far)) ! 1) =
     env_pgdir (envs st_far ! 1)"
    using ipc_try_send_success_fields [OF ok' res' cur' send_far_res2, of 43 "0x3000" 7 44 "0x3000" 7]
    by (simp add: h(1) h' send_far_ok)
  from 1 2 h(4,5) show ?thesis
    by simp
qed

text \<open>
  C3, as stated, fails: a user-mode page fault in an environment with a registered
  upcall whose exception stack is not mapped ends in the destruction of the
  environment (\<open>user_mem_assert\<close>); no frame is written and the environment is not
  resumed.
\<close>

theorem page_fault_unmapped_xstack_destroys:
  "tf_cs (env_tf (envs st_nox ! curenv st_nox)) AND 3 \<noteq> 0 \<and>
   env_pgfault_upcall (envs st_nox ! curenv st_nox) \<noteq> 0 \<and>
   page_fault_handler jos_conf 0x1234 st_nox =
     Pf_Destroy (st_nox\<lparr>envs := [env0, env1, env2, env3\<lparr>env_tf := tf0\<lparr>tf_esp := 0xeebfffcc\<rparr>\<rparr>]\<rparr>)"
  by (simp add: page_fault_handler_def user_mem_check_def eval_defs sample_defs sample2_defs PGSIZE_def)

text \<open>
  C3, amended: for every user-mode page fault in an environment with a registered
  page-fault upcall, let \<open>A\<close> be \<open>(trap-time esp) - 4 - sizeof(UTrapframe)\<close> if the
  trap-time stack pointer lies in \<open>[UXSTACKTOP - PGSIZE, UXSTACKTOP)\<close> and
  \<open>UXSTACKTOP - sizeof(UTrapframe)\<close> otherwise. If the range of
  \<open>sizeof(UTrapframe)\<close> bytes at \<open>A\<close> passes the user/write/present check, the
  \<open>UTrapframe\<close> built from the fault address and the trap-time frame is written at
  \<open>A\<close> and the environment is resumed with its instruction pointer at the upcall
  and its stack pointer at \<open>A\<close>. If the check fails, nothing is written and the
  environment is destroyed, in the state in which its saved stack pointer is already
  \<open>A\<close>. The trap-time stack pointer \<open>UXSTACKTOP - 1\<close> is inside the interval
  (when \<open>UXSTACKTOP\<close> is at least one page), so the recursive layout is used there.
\<close>

theorem page_fault_upcall_frame:
  assumes user: "tf_cs (env_tf (envs s ! curenv s)) AND 3 \<noteq> 0"
      and up: "env_pgfault_upcall (envs s ! curenv s) \<noteq> 0"
      and cur: "curenv s < length (envs s)"
      and A: "A = (if UXSTACKTOP K - PGSIZE \<le> tf_esp (env_tf (envs s ! curenv s)) \<and>
                      tf_esp (env_tf (envs s ! curenv s)) < UXSTACKTOP K
                   then tf_esp (env_tf (envs s ! curenv s)) - 4 - sizeof_UTrapframe K
                   else UXSTACKTOP K - sizeof_UTrapframe K)"
  shows "(if user_mem_check (envs s ! curenv s) A (sizeof_UTrapframe K) (PTE_U OR PTE_W OR PTE_P)
          then \<exists>s'. page_fault_handler K fault_va s =
                 Pf_Upcall s' A
                   \<lparr>utf_fault_va = fault_va, utf_err = tf_err (env_tf (envs s ! curenv s)),
                    utf_regs = tf_regs (env_tf (envs s ! curenv s)),
                    utf_eip = tf_eip (env_tf (envs s ! curenv s)),
                    utf_eflags = tf_eflags (env_tf (envs s ! curenv s)),
                    utf_esp = tf_esp (env_tf (envs s ! curenv s))\<rparr> \<and>
              curenv s' = curenv s \<and>
              tf_eip (resumed_frame s' (curenv s')) = env_pgfault_upcall (envs s ! curenv s) \<and>
              tf_esp (resumed_frame s' (curenv s')) = A
          else page_fault_handler K fault_va s =
                 Pf_Destroy (upd_env (curenv s) (\<lambda>env. env\<lparr>env_tf := (env_tf env)\<lparr>tf_esp := A\<rparr>\<rparr>) s)) \<and>
         (PGSIZE \<le> UXSTACKTOP K \<and> tf_esp (env_tf (envs s ! curenv s)) = UXSTACKTOP K - 1
            \<longrightarrow> A = UXSTACKTOP K - 1 - 4 - sizeof_UTrapframe K)"
proof -
  let ?tf = "env_tf (envs s ! curenv s)"
  let ?s1 = "upd_env (curenv s) (\<lambda>env. env\<lparr>env_tf := (env_tf env)\<lparr>tf_esp := A\<rparr>\<rparr>) s"
  let ?chk = "user_mem_check (envs s ! curenv s) A (sizeof_UTrapframe K) (PTE_U OR PTE_W OR PTE_P)"
  have pg: "env_pgdir (envs ?s1 ! curenv ?s1) = env_pgdir (envs s ! curenv s)"
    using cur by (simp add: upd_env_def)
  have chk1: "user_mem_check (envs ?s1 ! curenv ?s1) A (sizeof_UTrapframe K) (PTE_U OR PTE_W OR PTE_P)
                \<longleftrightarrow> ?chk"
    by (simp add: user_mem_check_def pg)
  have bnd: "A = UXSTACKTOP K - 1 - 4 - sizeof_UTrapframe K"
    if "PGSIZE \<le> UXSTACKTOP K" "tf_esp ?tf = UXSTACKTOP K - 1"
  proof -
    from that(1) have "UXSTACKTOP K - PGSIZE \<le> UXSTACKTOP K - 1 \<and> UXSTACKTOP K - 1 < UXSTACKTOP K"
      by (simp add: PGSIZE_def word_le_nat_alt word_less_nat_alt unat_sub)
    with that(2) A show ?thesis by simp
  qed
  have esp2: "(if UXSTACKTOP K - PGSIZE \<le> tf_esp ?tf \<and> tf_esp ?tf < UXSTACKTOP K
               then tf_esp ?tf - 4 else UXSTACKTOP K) - sizeof_UTrapframe K = A"
    unfolding A by simp
  have run: "page_fault_handler K fault_va s =
          (if ?chk then
             Pf_Upcall (upd_env (curenv ?s1)
                      (\<lambda>env. env\<lparr>env_tf := (env_tf env)\<lparr>tf_eip := env_pgfault_upcall env\<rparr>\<rparr>) ?s1)
               A
               \<lparr>utf_fault_va = fault_va, utf_err = tf_err ?tf, utf_regs = tf_regs ?tf,
                utf_eip = tf_eip ?tf, utf_eflags = tf_eflags ?tf, utf_esp = tf_esp ?tf\<rparr>
           else Pf_Destroy ?s1)"
    unfolding page_fault_handler_def Let_def esp2
    using user up by (simp add: chk1)
  show ?thesis
  proof (cases ?chk)
    case True
    with run cur bnd show ?thesis
      by (auto simp: upd_env_def resumed_frame_def)
  next
    case False
    with run bnd show ?thesis
      by auto
  qed
qed

theorem page_fault_upcall_frame_witness:
  "(\<exists>s'. page_fault_handler jos_conf 0x1234 st0 =
           Pf_Upcall s' 0xeebfffcc
             \<lparr>utf_fault_va = 0x1234, utf_err = 0, utf_regs = regs0, utf_eip = 0x800020,
              utf_eflags = 0x202, utf_esp = 0xeebfdfc0\<rparr> \<and>
         tf_eip (resumed_frame s' (curenv s')) = 0x800100 \<and>
         tf_esp (resumed_frame s' (curenv s')) = 0xeebfffcc) \<and>
   (\<exists>s'. page_fault_handler jos_conf 0x1234 st_rec =
           Pf_Upcall s' 0xeebfffc7
             \<lparr>utf_fault_va = 0x1234, utf_err = 0, utf_regs = regs0, utf_eip = 0x800020,
              utf_eflags = 0x202, utf_esp = 0xeebfffff\<rparr> \<and>
         tf_eip (resumed_frame s' (curenv s')) = 0x800100 \<and>
         tf_esp (resumed_frame s' (curenv s')) = 0xeebfffc7) \<and>
   \<not> user_mem_check (envs st_nox ! curenv st_nox) 0xeebfffcc (sizeof_UTrapframe jos_conf)
       (PTE_U OR PTE_W OR PTE_P) \<and>
   page_fault_handler jos_conf 0x1234 st_nox =
     Pf_Destroy (upd_env (curenv st_nox) (\<lambda>env. env\<lparr>env_tf := (env_tf env)\<lparr>tf_esp := 0xeebfffcc\<rparr>\<rparr>) st_nox)"
proof -
  have user: "tf_cs (env_tf (envs st0 ! curenv st0)) AND 3 \<noteq> 0"
    by (simp add: sample_defs)
  have up: "env_pgfault_upcall (envs st0 ! curenv st0) \<noteq> 0"
    by (simp add: sample_defs)
  have cur: "curenv st0 < length (envs st0)"
    by (simp add: sample_defs)
  have A: "0xeebfffcc = (if UXSTACKTOP jos_conf - PGSIZE \<le> tf_esp (env_tf (envs st0 ! curenv st0)) \<and>
                      tf_esp (env_tf (envs st0 ! curenv st0)) < UXSTACKTOP jos_conf
                   then tf_esp (env_tf (envs st0 ! curenv st0)) - 4 - sizeof_UTrapframe jos_conf
                   else UXSTACKTOP jos_conf - sizeof_UTrapframe jos_conf)"
    by (simp add: sample_defs PGSIZE_def)
  have chk: "user_mem_check (envs st0 ! curenv st0) 0xeebfffcc (sizeof_UTrapframe jos_conf)
               (PTE_U OR PTE_W OR PTE_P)"
    by (simp add: user_mem_check_def eval_defs sample_defs)
  have user': "tf_cs (env_tf (envs st_rec ! curenv st_rec)) AND 3 \<noteq> 0"
    by (simp add: sample_defs sample2_defs)
  have up': "env_pgfault_upcall (envs st_rec ! curenv st_rec) \<noteq> 0"
    by (simp add: sample_defs sample2_defs)
  have cur': "curenv st_rec < length (envs st_rec)"
    by (simp add: sample_defs sample2_defs)
  have A': "0xeebfffc7 = (if UXSTACKTOP jos_conf - PGSIZE \<le> tf_esp (env_tf (envs st_rec ! curenv st_rec)) \<and>
                      tf_esp (env_tf (envs st_rec ! curenv st_rec)) < UXSTACKTOP jos_conf
                   then tf_esp (env_tf (envs st_rec ! curenv st_rec)) - 4 - sizeof_UTrapframe jos_conf
                   else UXSTACKTOP jos_conf - sizeof_UTrapframe jos_conf)"
    by (simp add: sample_defs sample2_defs PGSIZE_def)
  have chk': "user_mem_check (envs st_rec ! curenv st_rec) 0xeebfffc7 (sizeof_UTrapframe jos_conf)
               (PTE_U OR PTE_W OR PTE_P)"
    by (simp add: user_mem_check_def eval_defs sample_defs sample2_defs)
  have v: "tf_err (env_tf (envs st0 ! curenv st0)) = 0"
      "tf_regs (env_tf (envs st0 ! curenv st0)) = regs0"
      "tf_eip (env_tf (envs st0 ! curenv st0)) = 0x800020"
      "tf_eflags (env_tf (envs st0 ! curenv st0)) = 0x202"
      "tf_esp (env_tf (envs st0 ! curenv st0)) = 0xeebfdfc0"
      "env_pgfault_upcall (envs st0 ! curenv st0) = 0x800100"
    by (simp_all add: st0_def env0_def tf0_def)
  have v': "tf_err (env_tf (envs st_rec ! curenv st_rec)) = 0"
      "tf_regs (env_tf (envs st_rec ! curenv st_rec)) = regs0"
      "tf_eip (env_tf (envs st_rec ! curenv st_rec)) = 0x800020"
      "tf_eflags (env_tf (envs st_rec ! curenv st_rec)) = 0x202"
      "tf_esp (env_tf (envs st_rec ! curenv st_rec)) = 0xeebfffff"
      "env_pgfault_upcall (envs st_rec ! curenv st_rec) = 0x800100"
    by (simp_all add: st_rec_def st0_def env0_def tf0_def)
  have user'': "tf_cs (env_tf (envs st_nox ! curenv st_nox)) AND 3 \<noteq> 0"
    by (simp add: sample_defs sample2_defs)
  have up'': "env_pgfault_upcall (envs st_nox ! curenv st_nox) \<noteq> 0"
    by (simp add: sample_defs sample2_defs)
  have cur'': "curenv st_nox < length (envs st_nox)"
    by (simp add: sample_defs sample2_defs)
  have A'': "0xeebfffcc = (if UXSTACKTOP jos_conf - PGSIZE \<le> tf_esp (env_tf (envs st_nox ! curenv st_nox)) \<and>
                      tf_esp (env_tf (envs st_nox ! curenv st_nox)) < UXSTACKTOP jos_conf
                   then tf_esp (env_tf (envs st_nox ! curenv st_nox)) - 4 - sizeof_UTrapframe jos_conf
                   else UXSTACKTOP jos_conf - sizeof_UTrapframe jos_conf)"
    by (simp add: sample_defs sample2_defs PGSIZE_def)
  have chk'': "\<not> user_mem_check (envs st_nox ! curenv st_nox) 0xeebfffcc (sizeof_UTrapframe jos_conf)
               (PTE_U OR PTE_W OR PTE_P)"
    by (simp add: user_mem_check_def eval_defs sample_defs sample2_defs)
  show ?thesis
    using page_fault_upcall_frame [OF user up cur A, of "0x1234"]
      page_fault_upcall_frame [OF user' up' cur' A', of "0x1234"]
      page_fault_upcall_frame [OF user'' up'' cur'' A'', of "0x1234"]
      chk chk' chk''
    unfolding v v' by (simp only: if_True if_False) blast
qed

text \<open>
  C4: when \<open>envid\<close> resolves with the caller's permission,
  \<open>sys_page_alloc(envid, va, perm)\<close> returns \<open>-E_INVAL\<close> exactly when
  \<open>va >= UTOP\<close>, or \<open>va\<close> is not a multiple of the page size, or \<open>perm\<close> lacks
  the user bit or the present bit, or \<open>perm\<close> has a bit outside \<open>PTE_SYSCALL\<close>.
  In particular \<open>va = UTOP\<close> fails with \<open>-E_INVAL\<close>, and (\<open>UTOP\<close> being
  page-aligned and at least one page) \<open>va = UTOP - PGSIZE\<close> with a permitted
  \<open>perm\<close> does not.
\<close>

theorem page_alloc_inval_iff:
  assumes res: "envid2env s envid True = Inr e"
  shows "(fst (sys_page_alloc K envid va perm s) = Inl E_INVAL \<longleftrightarrow>
            (UTOP K \<le> va \<or> \<not> unat PGSIZE dvd unat va \<or>
             perm AND PTE_U \<noteq> PTE_U \<or> perm AND PTE_P \<noteq> PTE_P \<or>
             perm AND NOT (PTE_SYSCALL K) \<noteq> 0)) \<and>
         fst (sys_page_alloc K envid (UTOP K) perm s) = Inl E_INVAL \<and>
         (unat PGSIZE dvd unat (UTOP K) \<and> PGSIZE \<le> UTOP K \<and>
          perm AND PTE_U = PTE_U \<and> perm AND PTE_P = PTE_P \<and> perm AND NOT (PTE_SYSCALL K) = 0
            \<longrightarrow> fst (sys_page_alloc K envid (UTOP K - PGSIZE) perm s) \<noteq> Inl E_INVAL)"
proof -
  note iff = page_alloc_not_inval [OF res, unfolded and_or_sub PGOFF_aligned]
  have 1: "fst (sys_page_alloc K envid va perm s) = Inl E_INVAL \<longleftrightarrow>
            (UTOP K \<le> va \<or> \<not> unat PGSIZE dvd unat va \<or>
             perm AND PTE_U \<noteq> PTE_U \<or> perm AND PTE_P \<noteq> PTE_P \<or>
             perm AND NOT (PTE_SYSCALL K) \<noteq> 0)"
    using iff [of K va perm] by blast
  have 2: "fst (sys_page_alloc K envid (UTOP K) perm s) = Inl E_INVAL"
    using iff [of K "UTOP K" perm] by simp
  have 3: "fst (sys_page_alloc K envid (UTOP K - PGSIZE) perm s) \<noteq> Inl E_INVAL"
    if "unat PGSIZE dvd unat (UTOP K)" "PGSIZE \<le> UTOP K"
       "perm AND PTE_U = PTE_U" "perm AND PTE_P = PTE_P" "perm AND NOT (PTE_SYSCALL K) = 0"
  proof -
    from page_below [of "UTOP K"] that(1,2)
    have "unat PGSIZE dvd unat (UTOP K - PGSIZE)" "\<not> UTOP K \<le> UTOP K - PGSIZE"
      by (auto simp add: PGOFF_aligned not_le)
    with that(3,4,5) show ?thesis
      using iff [of K "UTOP K - PGSIZE" perm] by simp
  qed
  from 1 2 3 show ?thesis by blast
qed

theorem page_alloc_inval_iff_witness:
  "(fst (sys_page_alloc jos_conf 0x1001 0x1001 7 st0) = Inl E_INVAL \<longleftrightarrow>
      (UTOP jos_conf \<le> 0x1001 \<or> \<not> unat PGSIZE dvd unat (0x1001::u32) \<or>
       7 AND PTE_U \<noteq> PTE_U \<or> 7 AND PTE_P \<noteq> PTE_P \<or>
       7 AND NOT (PTE_SYSCALL jos_conf) \<noteq> 0)) \<and>
   fst (sys_page_alloc jos_conf 0x1001 0x1001 7 st0) = Inl E_INVAL \<and>
   fst (sys_page_alloc jos_conf 0x1001 (UTOP jos_conf) 7 st0) = Inl E_INVAL \<and>
   fst (sys_page_alloc jos_conf 0x1001 (UTOP jos_conf - PGSIZE) 7 st0) \<noteq> Inl E_INVAL \<and>
   fst (sys_page_alloc jos_conf 0x1001 (UTOP jos_conf - PGSIZE) 7 st0) = Inr 0"
proof -
  have res: "envid2env st0 0x1001 True = Inr 1"
    by (simp add: envid2env_def sample_defs)
  have h: "unat PGSIZE dvd unat (UTOP jos_conf)" "PGSIZE \<le> UTOP jos_conf"
      "7 AND PTE_U = PTE_U" "7 AND PTE_P = PTE_P" "7 AND NOT (PTE_SYSCALL jos_conf) = 0"
      "\<not> unat PGSIZE dvd unat (0x1001::u32)"
    by (simp_all add: jos_conf_def PGSIZE_def PTE_U_def PTE_P_def)
  have ok: "fst (sys_page_alloc jos_conf 0x1001 (UTOP jos_conf - PGSIZE) 7 st0) = Inr 0"
    by (simp add: sys_page_alloc_def eval_defs sample_defs PGSIZE_def)
  show ?thesis
    using page_alloc_inval_iff [OF res, of jos_conf "0x1001" 7] h ok by blast
qed

text \<open>
  C5: after a successful \<open>sys_env_set_trapframe(envid, tf)\<close> the target's saved
  trap frame is the supplied frame, the one read through the pointer \<open>tf\<close> in the
  caller's address space, except that \<open>tf_ds\<close>, \<open>tf_es\<close> and \<open>tf_ss\<close> are
  \<open>GD_UD | 3\<close>, \<open>tf_cs\<close> is \<open>GD_UT | 3\<close>, and in \<open>tf_eflags\<close> the
  interrupt-enable flag is set and the I/O privilege level bits are zero, the other
  flag bits being those supplied.
\<close>

theorem env_set_trapframe_clamps:
  assumes ok: "sys_env_set_trapframe K envid tfva s = Sys_Return (Inr r) s'"
      and res: "envid2env s envid True = Inr e"
      and cur: "curenv s < length (envs s)"
  shows "\<exists>tf. read_Trapframe s (env_pgdir (envs s ! curenv s)) tfva = Some tf \<and>
           env_tf (envs s' ! e) =
             tf\<lparr>tf_es := GD_UD K OR 3, tf_ds := GD_UD K OR 3, tf_cs := GD_UT K OR 3,
                tf_eflags := tf_eflags (env_tf (envs s' ! e)), tf_ss := GD_UD K OR 3\<rparr> \<and>
           tf_eflags (env_tf (envs s' ! e)) AND FL_IF = FL_IF \<and>
           tf_eflags (env_tf (envs s' ! e)) AND FL_IOPL_MASK = 0 \<and>
           tf_eflags (env_tf (envs s' ! e)) AND NOT (FL_IF OR FL_IOPL_MASK) =
             tf_eflags tf AND NOT (FL_IF OR FL_IOPL_MASK)"
proof -
  have len: "e < length (envs s)"
    using res cur by (rule envid2env_bound)
  from ok res have chk: "user_mem_check (envs s ! e) tfva sizeof_Trapframe PTE_U"
    by (auto simp: sys_env_set_trapframe_def split: if_splits)
  from ok res chk obtain tf where rd: "read_Trapframe s (env_pgdir (envs s ! curenv s)) tfva = Some tf"
    by (auto simp: sys_env_set_trapframe_def split: option.splits)
  from ok res chk rd len have
    "env_tf (envs s' ! e) =
       tf\<lparr>tf_es := GD_UD K OR 3, tf_ds := GD_UD K OR 3, tf_cs := GD_UT K OR 3,
          tf_eflags := (tf_eflags tf OR FL_IF) AND NOT FL_IOPL_MASK, tf_ss := GD_UD K OR 3\<rparr>"
    by (auto simp: sys_env_set_trapframe_def Let_def upd_env_def)
  then show ?thesis
    using eflags_clamp [of "tf_eflags tf"] rd by simp
qed

theorem env_set_trapframe_clamps_witness:
  "sys_env_set_trapframe jos_conf 0x1001 0x5000 st_tf =
     Sys_Return (Inr 0) st_tf_set \<and>
   read_Trapframe st_tf (env_pgdir (envs st_tf ! curenv st_tf)) 0x5000 = Some tf55 \<and>
   (\<exists>tf. read_Trapframe st_tf (env_pgdir (envs st_tf ! curenv st_tf)) 0x5000 = Some tf \<and>
      env_tf (envs st_tf_set ! 1) =
        tf\<lparr>tf_es := GD_UD jos_conf OR 3, tf_ds := GD_UD jos_conf OR 3, tf_cs := GD_UT jos_conf OR 3,
           tf_eflags := tf_eflags (env_tf (envs st_tf_set ! 1)),
           tf_ss := GD_UD jos_conf OR 3\<rparr> \<and>
      tf_eflags (env_tf (envs st_tf_set ! 1)) AND FL_IF = FL_IF \<and>
      tf_eflags (env_tf (envs st_tf_set ! 1)) AND FL_IOPL_MASK = 0 \<and>
      tf_eflags (env_tf (envs st_tf_set ! 1))
        AND NOT (FL_IF OR FL_IOPL_MASK) = tf_eflags tf AND NOT (FL_IF OR FL_IOPL_MASK))"
proof -
  have cur: "curenv st_tf < length (envs st_tf)"
    by (simp add: sample_defs st_tf_def)
  show ?thesis
    using env_set_trapframe_clamps [OF settf_run settf_res cur] settf_run read_tf55 by blast
qed

text \<open>
  C6: when both environment identifiers resolve with the caller's permission, both
  addresses are below \<open>UTOP\<close> and page-aligned, \<open>perm\<close> has the user and present
  bits and no bit outside \<open>PTE_SYSCALL\<close>, \<open>perm\<close> requests the write bit, and the
  page-table entry of the source mapping at \<open>srcva\<close> has the write bit clear, then
  \<open>sys_page_map\<close> returns \<open>-E_INVAL\<close> and leaves the whole kernel state, hence the
  destination's address space, unchanged.
\<close>

theorem page_map_write_leak_refused:
  assumes "envid2env s srcenvid True = Inr srcenv"
      and "envid2env s dstenvid True = Inr dstenv"
      and "srcva < UTOP K" and "unat PGSIZE dvd unat srcva"
      and "dstva < UTOP K" and "unat PGSIZE dvd unat dstva"
      and "perm AND PTE_U = PTE_U" and "perm AND PTE_P = PTE_P"
      and "perm AND NOT (PTE_SYSCALL K) = 0"
      and "perm AND PTE_W \<noteq> 0"
      and "page_lookup (env_pgdir (envs s ! srcenv)) srcva = Some (pp, pte)"
      and "pte AND PTE_W = 0"
  shows "sys_page_map K srcenvid srcva dstenvid dstva perm s = (Inl E_INVAL, s)"
proof -
  have up: "perm AND (PTE_U OR PTE_P) = PTE_U OR PTE_P"
    using assms(7,8) by (simp add: and_or_sub)
  have a: "\<not> UTOP K \<le> srcva" "\<not> UTOP K \<le> dstva"
    using assms(3,5) by simp_all
  have al: "PGOFF srcva = 0" "PGOFF dstva = 0"
    using assms(4,6) by (simp_all add: PGOFF_aligned)
  show ?thesis
    using assms(1,2,9,10,11,12) a al up by (simp add: sys_page_map_def)
qed

theorem page_map_write_leak_refused_witness:
  "sys_page_map jos_conf 0 0x2000 0x1001 0x1000 7 st0 = (Inl E_INVAL, st0)"
proof -
  have h1: "envid2env st0 0 True = Inr 0"
    by (simp add: envid2env_def sample_defs)
  have h2: "envid2env st0 0x1001 True = Inr 1"
    by (simp add: envid2env_def sample_defs)
  have h3: "page_lookup (env_pgdir (envs st0 ! 0)) 0x2000 = Some (11, 0xB005)"
    by (simp add: page_lookup_def sample_defs PDX_def PGNUM_def PTE_P_def pa2page_def PTE_ADDR_def)
  show ?thesis
    using page_map_write_leak_refused [where K = jos_conf and dstva = "0x1000" and perm = 7, OF h1 h2 _ _ _ _ _ _ _ _ h3]
    by (simp add: sample_defs PGSIZE_def PTE_U_def PTE_P_def PTE_W_def)
qed

text \<open>
  C7: a successful \<open>sys_exofork\<close> takes a slot that was free (a new environment,
  different from the caller), leaves it with status \<open>ENV_NOT_RUNNABLE\<close>, with the
  caller as parent and with a saved trap frame that is the caller's saved trap frame
  with \<open>eax\<close> forced to zero, and returns the new environment's identifier; the
  frame the child resumes with has \<open>eax = 0\<close>. The caller is a live environment
  (its status is not \<open>ENV_FREE\<close>).
\<close>

theorem exofork_child:
  assumes ok: "sys_exofork K s = (Inr r, s')"
      and cur: "env_status (envs s ! curenv s) \<noteq> ENV_FREE"
  shows "\<exists>e. e < length (envs s) \<and> e \<noteq> curenv s \<and> env_status (envs s ! e) = ENV_FREE \<and>
             env_status (envs s' ! e) = ENV_NOT_RUNNABLE \<and>
             env_tf (envs s' ! e) =
               (env_tf (envs s ! curenv s))
                 \<lparr>tf_regs := (tf_regs (env_tf (envs s ! curenv s)))\<lparr>reg_eax := 0\<rparr>\<rparr> \<and>
             env_parent_id (envs s' ! e) = env_id (envs s ! curenv s) \<and>
             r = env_id (envs s' ! e) \<and>
             env_tf (envs s' ! curenv s) = env_tf (envs s ! curenv s) \<and>
             reg_eax (tf_regs (resumed_frame s' e)) = 0"
proof -
  from ok obtain e s1 where al: "env_alloc K (env_id (envs s ! curenv s)) s = (Inr e, s1)"
    by (auto simp: sys_exofork_def split: prod.splits sum.splits)
  note a = env_alloc_success [OF al]
  from a cur have ne: "e \<noteq> curenv s" by auto
  from a have len1: "e < length (envs s1)" by simp
  from a ne have cs1: "envs s1 ! curenv s1 = envs s ! curenv s" by simp
  from ok al have r: "r = env_id (envs s' ! e)"
    and s': "envs s' = (envs s1)[e := (envs s1 ! e)\<lparr>env_status := ENV_NOT_RUNNABLE,
               env_tf := (env_tf (envs s1 ! curenv s1))
                 \<lparr>tf_regs := (tf_regs (env_tf (envs s1 ! curenv s1)))\<lparr>reg_eax := 0\<rparr>\<rparr>\<rparr>]"
    using len1 ne a by (auto simp: sys_exofork_def Let_def upd_env_def)
  show ?thesis
    apply (rule exI [of _ e])
    using a ne len1 r cs1 by (simp add: s' resumed_frame_def)
qed

theorem exofork_child_witness:
  "fst (sys_exofork jos_conf st0) = Inr 0x1002 \<and>
   (\<exists>e. e < length (envs st0) \<and> e \<noteq> curenv st0 \<and> env_status (envs st0 ! e) = ENV_FREE \<and>
        env_status (envs (snd (sys_exofork jos_conf st0)) ! e) = ENV_NOT_RUNNABLE \<and>
        env_tf (envs (snd (sys_exofork jos_conf st0)) ! e) =
          (env_tf (envs st0 ! curenv st0))
            \<lparr>tf_regs := (tf_regs (env_tf (envs st0 ! curenv st0)))\<lparr>reg_eax := 0\<rparr>\<rparr> \<and>
        env_parent_id (envs (snd (sys_exofork jos_conf st0)) ! e) = env_id (envs st0 ! curenv st0) \<and>
        0x1002 = env_id (envs (snd (sys_exofork jos_conf st0)) ! e) \<and>
        env_tf (envs (snd (sys_exofork jos_conf st0)) ! curenv st0) = env_tf (envs st0 ! curenv st0) \<and>
        reg_eax (tf_regs (resumed_frame (snd (sys_exofork jos_conf st0)) e)) = 0)"
proof -
  have ok: "sys_exofork jos_conf st0 = (Inr 0x1002, snd (sys_exofork jos_conf st0))"
    using exofork_ok by (simp add: prod_eq_iff)
  have cur: "env_status (envs st0 ! curenv st0) \<noteq> ENV_FREE"
    by (simp add: sample_defs)
  show ?thesis
    using exofork_child [OF ok cur] exofork_ok by blast
qed

text \<open>
  C8: for an identifier that resolves with the caller's permission and a
  page-aligned \<open>va\<close> below \<open>UTOP\<close>, \<open>sys_page_unmap(envid, va)\<close> returns 0,
  also when no page is mapped at \<open>va\<close> (then the state is unchanged), and a second
  call with the same arguments returns 0 and leaves the state the first call left.
\<close>

theorem page_unmap_idempotent:
  assumes res: "envid2env s envid True = Inr e"
      and cur: "curenv s < length (envs s)"
      and va: "va < UTOP K" "unat PGSIZE dvd unat va"
  shows "fst (sys_page_unmap K envid va s) = Inr 0 \<and>
         sys_page_unmap K envid va (snd (sys_page_unmap K envid va s)) =
           (Inr 0, snd (sys_page_unmap K envid va s)) \<and>
         (page_lookup (env_pgdir (envs s ! e)) va = None \<longrightarrow>
            sys_page_unmap K envid va s = (Inr 0, s))"
proof -
  have len: "e < length (envs s)"
    using res cur by (rule envid2env_bound)
  have chk: "\<not> (UTOP K \<le> va \<or> PGOFF va \<noteq> 0)"
    using va by (simp add: PGOFF_aligned not_le)
  have 1: "sys_page_unmap K envid va s = (Inr 0, page_remove e va s)"
    using res chk by (simp add: sys_page_unmap_def)
  have res': "envid2env (page_remove e va s) envid True = Inr e"
    using envid2env_pgdir_only [OF pgdir_only_remove] res by simp
  have 2: "sys_page_unmap K envid va (page_remove e va s) = (Inr 0, page_remove e va s)"
    using res' chk by (simp add: sys_page_unmap_def page_remove_twice [OF len])
  have 3: "sys_page_unmap K envid va s = (Inr 0, s)"
    if "page_lookup (env_pgdir (envs s ! e)) va = None"
    using that 1 by (simp add: page_remove_def)
  from 1 2 3 show ?thesis by simp
qed

theorem page_unmap_idempotent_witness:
  "fst (sys_page_unmap jos_conf 0 0x3000 st0) = Inr 0 \<and>
   sys_page_unmap jos_conf 0 0x3000 (snd (sys_page_unmap jos_conf 0 0x3000 st0)) =
     (Inr 0, snd (sys_page_unmap jos_conf 0 0x3000 st0)) \<and>
   page_lookup (env_pgdir (envs st0 ! 0)) 0x3000 = Some (15, 0xF007) \<and>
   page_lookup (env_pgdir (envs (snd (sys_page_unmap jos_conf 0 0x3000 st0)) ! 0)) 0x3000 = None \<and>
   page_lookup (env_pgdir (envs st0 ! 0)) 0x400000 = None \<and>
   sys_page_unmap jos_conf 0 0x400000 st0 = (Inr 0, st0)"
proof -
  have res: "envid2env st0 0 True = Inr 0"
    by (simp add: envid2env_def sample_defs)
  have cur: "curenv st0 < length (envs st0)"
    by (simp add: sample_defs)
  have va: "0x3000 < UTOP jos_conf" "unat PGSIZE dvd unat (0x3000::u32)"
      "0x400000 < UTOP jos_conf" "unat PGSIZE dvd unat (0x400000::u32)"
    by (simp_all add: jos_conf_def PGSIZE_def)
  have l: "page_lookup (env_pgdir (envs st0 ! 0)) 0x3000 = Some (15, 0xF007)"
      "page_lookup (env_pgdir (envs st0 ! 0)) 0x400000 = None"
    by (simp_all add: eval_defs sample_defs)
  have l': "page_lookup (env_pgdir (envs (snd (sys_page_unmap jos_conf 0 0x3000 st0)) ! 0)) 0x3000 = None"
    by (simp add: sys_page_unmap_def eval_defs sample_defs)
  show ?thesis
    using page_unmap_idempotent [OF res cur va(1,2)] page_unmap_idempotent [OF res cur va(3,4)] l l' by blast
qed

text \<open>
  C9: when the destination of \<open>sys_ipc_try_send\<close> resolves and is receive-blocked
  with a receive address at or above \<open>UTOP\<close>, the call returns 0 and records the
  permissions 0, and neither \<open>srcva\<close> nor \<open>perm\<close> is validated: the call does the
  same for any other \<open>srcva'\<close> and \<open>perm'\<close>, misaligned, unmapped or with bits
  outside the permitted mask.
\<close>

theorem ipc_try_send_no_page_requested:
  assumes "envid2env s envid False = Inr e"
      and "curenv s < length (envs s)"
      and "env_ipc_recving (envs s ! e)"
      and "UTOP K \<le> env_ipc_dstva (envs s ! e)"
  shows "fst (sys_ipc_try_send K envid val srcva perm s) = Inr 0 \<and>
         env_ipc_perm (envs (snd (sys_ipc_try_send K envid val srcva perm s)) ! e) = 0 \<and>
         sys_ipc_try_send K envid val srcva perm s = sys_ipc_try_send K envid val srcva' perm' s"
proof -
  have len: "e < length (envs s)"
    using assms(1,2) by (rule envid2env_bound)
  have nlt: "\<not> env_ipc_dstva (envs s ! e) < UTOP K"
    using assms(4) by simp
  have eq: "\<And>a p. sys_ipc_try_send K envid val a p s = (Inr 0, update_ipc_fields e val 0 s)"
    using assms(1,3) nlt by (simp add: sys_ipc_try_send_def)
  show ?thesis
    using len by (simp add: eq update_ipc_fields_envs)
qed

theorem ipc_try_send_no_page_requested_witness:
  "fst (sys_ipc_try_send jos_conf 0x1001 42 0x2001 0xFFFFFFFF st_far) = Inr 0 \<and>
   env_ipc_perm (envs (snd (sys_ipc_try_send jos_conf 0x1001 42 0x2001 0xFFFFFFFF st_far)) ! 1) = 0 \<and>
   sys_ipc_try_send jos_conf 0x1001 42 0x2001 0xFFFFFFFF st_far =
     sys_ipc_try_send jos_conf 0x1001 42 0x3000 7 st_far"
proof -
  have h1: "envid2env st_far 0x1001 False = Inr 1"
    by (simp add: envid2env_def sample_defs)
  have h2: "curenv st_far < length (envs st_far)"
    by (simp add: sample_defs)
  have h3: "env_ipc_recving (envs st_far ! 1)"
    by (simp add: sample_defs)
  have h4: "UTOP jos_conf \<le> env_ipc_dstva (envs st_far ! 1)"
    by (simp add: sample_defs)
  show ?thesis
    by (rule ipc_try_send_no_page_requested [OF h1 h2 h3 h4])
qed

text \<open>
  C10: a successful \<open>sys_page_alloc(envid, va, perm)\<close> at an address where a page
  is already mapped (a frame that is not on the free list) replaces the mapping: the
  frame at the head of the free list is allocated and zeroed, its reference count is
  incremented and the page-table entry at \<open>va\<close> becomes its address with \<open>perm\<close>
  and the present bit; the reference count of the frame mapped before is
  decremented, and that frame returns to the free list when the count reaches zero.
\<close>

theorem page_alloc_replaces_mapping:
  assumes ok: "sys_page_alloc K envid va perm s = (Inr r, s')"
      and res: "envid2env s envid True = Inr e"
      and cur: "curenv s < length (envs s)"
      and old: "page_lookup (env_pgdir (envs s ! e)) va = Some (old, opte)"
      and nf: "old \<notin> set (page_free_list s)"
  shows "\<exists>pp rest. page_free_list s = pp # rest \<and>
           page_bytes s' pp = (\<lambda>_. 0) \<and>
           uvpt (env_pgdir (envs s' ! e)) (PGNUM va) = page2pa pp OR perm OR PTE_P \<and>
           page_lookup (env_pgdir (envs s' ! e)) va =
             Some (pa2page (PTE_ADDR (page2pa pp OR perm OR PTE_P)), page2pa pp OR perm OR PTE_P) \<and>
           pp_ref s' pp = pp_ref s pp + 1 \<and>
           pp_ref s' old = pp_ref s old - 1 \<and>
           page_free_list s' = (if pp_ref s old - 1 = 0 then old # rest else rest)"
proof -
  have len: "e < length (envs s)"
    using res cur by (rule envid2env_bound)
  from ok res obtain pp s1 where al: "page_alloc True s = Some (pp, s1)"
    by (auto simp: sys_page_alloc_def split: if_splits option.splits)
  then obtain rest where fl: "page_free_list s = pp # rest"
    and s1: "s1 = s\<lparr>page_free_list := rest, page_bytes := (page_bytes s)(pp := (\<lambda>_. 0))\<rparr>"
    by (auto simp: page_alloc_def split: list.splits)
  from ok res al have s': "s' = snd (page_insert e pp va perm s1)"
    by (auto simp: sys_page_alloc_def split: if_splits prod.splits sum.splits)
  from old have pd: "uvpd (env_pgdir (envs s ! e)) (PDX va) \<noteq> None"
    by (auto simp: page_lookup_def split: if_splits)
  from nf fl have ne: "old \<noteq> pp" by auto
  have "(page2pa pp OR perm OR PTE_P) AND PTE_P = PTE_P"
    using or_and_absorb [of "page2pa pp OR perm" PTE_P] by (simp only: or.assoc)
  then have pne: "(page2pa pp OR perm OR PTE_P) AND PTE_P \<noteq> 0"
    by (simp add: PTE_P_def)
  let ?s2 = "s1\<lparr>pp_ref := (pp_ref s1)(pp := pp_ref s1 pp + 1)\<rparr>"
  let ?new = "page2pa pp OR perm OR PTE_P"
  have walk: "pgdir_walk_create e va s1 = Some s1"
    using pd by (simp add: pgdir_walk_create_def s1)
  have old2: "page_lookup (env_pgdir (envs ?s2 ! e)) va = Some (old, opte)"
    using old by (simp add: s1)
  have rm: "page_remove e va ?s2 = set_pte e va 0 (page_decref old ?s2)"
    unfolding page_remove_def old2 by simp
  have s'': "s' = set_pte e va ?new (set_pte e va 0 (page_decref old ?s2))"
    unfolding s' page_insert_def walk Let_def by (simp add: rm)
  have lend: "e < length (envs (page_decref old ?s2))"
    using len by (simp add: page_decref_def page_free_def Let_def s1)
  have pt: "uvpt (env_pgdir (envs s' ! e)) (PGNUM va) = ?new"
    using lend by (simp add: s'' set_pte_def upd_env_def)
  have pd': "uvpd (env_pgdir (envs s' ! e)) (PDX va) \<noteq> None"
    using lend len pd by (simp add: s'' set_pte_def upd_env_def page_decref_def page_free_def Let_def s1)
  have lk: "page_lookup (env_pgdir (envs s' ! e)) va = Some (pa2page (PTE_ADDR ?new), ?new)"
    using pd' pne by (simp add: page_lookup_def pt Let_def)
  have bytes: "page_bytes s' pp = (\<lambda>_. 0)"
    by (simp add: s'' set_pte_def upd_env_def page_decref_def page_free_def Let_def s1)
  have refs: "pp_ref s' pp = pp_ref s pp + 1" "pp_ref s' old = pp_ref s old - 1"
    using ne by (simp_all add: s'' set_pte_def upd_env_def page_decref_def page_free_def Let_def s1)
  have free: "page_free_list s' = (if pp_ref s old - 1 = 0 then old # rest else rest)"
    using ne by (simp add: s'' set_pte_def upd_env_def page_decref_def page_free_def Let_def s1)
  from fl bytes pt lk refs free show ?thesis
    by blast
qed

theorem page_alloc_replaces_mapping_witness:
  "fst (sys_page_alloc jos_conf 0 0x3000 7 st0) = Inr 0 \<and>
   page_lookup (env_pgdir (envs st0 ! 0)) 0x3000 = Some (15, 0xF007) \<and>
   page_lookup (env_pgdir (envs (snd (sys_page_alloc jos_conf 0 0x3000 7 st0)) ! 0)) 0x3000 =
     Some (20, 0x14007) \<and>
   (\<exists>pp rest. page_free_list st0 = pp # rest \<and>
      page_bytes (snd (sys_page_alloc jos_conf 0 0x3000 7 st0)) pp = (\<lambda>_. 0) \<and>
      uvpt (env_pgdir (envs (snd (sys_page_alloc jos_conf 0 0x3000 7 st0)) ! 0)) (PGNUM 0x3000) =
        page2pa pp OR 7 OR PTE_P \<and>
      page_lookup (env_pgdir (envs (snd (sys_page_alloc jos_conf 0 0x3000 7 st0)) ! 0)) 0x3000 =
        Some (pa2page (PTE_ADDR (page2pa pp OR 7 OR PTE_P)), page2pa pp OR 7 OR PTE_P) \<and>
      pp_ref (snd (sys_page_alloc jos_conf 0 0x3000 7 st0)) pp = pp_ref st0 pp + 1 \<and>
      pp_ref (snd (sys_page_alloc jos_conf 0 0x3000 7 st0)) 15 = pp_ref st0 15 - 1 \<and>
      page_free_list (snd (sys_page_alloc jos_conf 0 0x3000 7 st0)) =
        (if pp_ref st0 15 - 1 = 0 then 15 # rest else rest))"
proof -
  have ok: "sys_page_alloc jos_conf 0 0x3000 7 st0 =
              (Inr 0, snd (sys_page_alloc jos_conf 0 0x3000 7 st0))"
    using realloc_ok by (simp add: prod_eq_iff)
  have res: "envid2env st0 0 True = Inr 0"
    by (simp add: envid2env_def sample_defs)
  have cur: "curenv st0 < length (envs st0)"
    by (simp add: sample_defs)
  have old: "page_lookup (env_pgdir (envs st0 ! 0)) 0x3000 = Some (15, 0xF007)"
    by (simp add: eval_defs sample_defs)
  have nf: "15 \<notin> set (page_free_list st0)"
    by (simp add: sample_defs)
  show ?thesis
    using page_alloc_replaces_mapping [OF ok res cur old nf] realloc_ok realloc_lookup old by blast
qed

end
